theory Spec2Isabelle
  imports Complex_Main
begin

section \<open>Data model (App.tsx type declarations)\<close>

text \<open>
  The client is one React component whose state cells and refs are updated by event
  handlers. Each handler is modelled as a function from the component state to the
  component state. A handler that awaits the host (media devices, network, the peer
  connection) is run to completion, the host's answers being read from an environment
  record. Identifiers are JavaScript numbers holding integers and are modelled as
  \<open>int\<close>; user ids are strings.
\<close>

datatype CallRequestStatus = Pending | Accepted | Rejected | Ended | Cancelled

datatype CallStatus = StIdle | StRequesting | StRinging | StConnecting | StInCall | StError

datatype IceConfigMode = ModeEnv | ModeDynamic

datatype Sender = Me | Other

record ChatMessage =
  msg_id :: int
  sender :: Sender
  senderName :: string
  content :: string
  timestamp :: string

text \<open>\<open>Number(inserted.id)\<close> and \<open>Number(inserted.conversation_id)\<close>: \<open>None\<close> stands for a
  value that is not finite.\<close>

record InsertedMessagePayload =
  ins_id :: "int option"
  ins_conversation_id :: "int option"
  ins_sender_id :: string
  ins_content :: string
  ins_created_at :: string

text \<open>A partial \<open>CallRequestRow\<close>; the numeric fields hold the result of \<open>Number(...)\<close>,
  with \<open>None\<close> for a value that is not finite.\<close>

record CallRequestRow =
  row_id :: "int option"
  row_conversation_id :: "int option"
  row_requester_id :: "string option"
  row_accepted_by :: "string option"
  row_status :: "CallRequestStatus option"

record ActiveCall =
  call_id :: int
  conversationId :: int
  requesterId :: string
  acceptedBy :: "string option"
  status :: CallRequestStatus

datatype RTCSessionDescriptionInit = SessionDescription string

datatype RTCIceCandidateInit = IceCandidate string

record SignalPayload =
  sig_callId :: int
  sig_from :: string
  sig_to :: "string option"
  sig_conversationId :: int
  sig_sdp :: "RTCSessionDescriptionInit option"
  sig_candidate :: "RTCIceCandidateInit option"

datatype SignalEvent = CallAcceptedEv | WebrtcOffer | WebrtcAnswer | WebrtcIce | CallEndedEv

datatype Urls = UrlString string | UrlArray "string list"

record RTCIceServer =
  urls :: Urls
  username :: "string option"
  credential :: "string option"

text \<open>A media stream is the list of its tracks; a track is named by a number.\<close>

type_synonym MediaStream = "nat list"

text \<open>
  The peer connection. \<open>addIceCandidateCalls\<close> lists every candidate handed to
  \<open>addIceCandidate\<close>, in call order; \<open>addedCandidates\<close> those the host took.
\<close>

record RTCPeerConnection =
  pc_iceServers :: "RTCIceServer list"
  pc_call :: ActiveCall
  pc_myUserId :: string
  pc_tracks :: "nat list"
  remoteDescription :: "RTCSessionDescriptionInit option"
  localDescription :: "RTCSessionDescriptionInit option"
  addIceCandidateCalls :: "RTCIceCandidateInit list"
  addedCandidates :: "RTCIceCandidateInit list"

text \<open>The requests the client sends to the persistence layer. The last argument of an
  update is the \<open>accepted_by\<close> field of the update, \<open>None\<close> when the update has none.\<close>

datatype DbOp =
    InsertCallRequest int string CallRequestStatus
  | UpdateCallRequest int CallRequestStatus "string option"
  | InsertMessage int string string

datatype json =
    JUndefined
  | JNull
  | JBool bool
  | JNum rat
  | JStr string
  | JArr "json list"
  | JObj "(string \<times> json) list"

datatype jsnum = Num rat | NaN | PosInfinity | NegInfinity

text \<open>The body of the relay-credential response; \<open>ttlSecondsNumber\<close> is
  \<open>Number(payload.ttlSeconds)\<close>.\<close>

record IceServerFunctionResponse =
  iceServers :: json
  ttlSecondsNumber :: jsnum

text \<open>What \<open>getSession\<close>, \<open>fetch\<close> and \<open>response.json()\<close> give: an exception, or a
  response with its \<open>ok\<close> flag and body.\<close>

datatype FetchOutcome = FetchThrows | FetchResponse bool IceServerFunctionResponse

text \<open>\<open>VITE_ICE_SERVERS_JSON\<close>: unset or blank, text that \<open>JSON.parse\<close> rejects, or parsed.\<close>

datatype EnvJson = EnvBlank | EnvUnparsable | EnvParsed json

text \<open>
  The host as one handler run meets it: the clock, the media devices, the build-time
  variable, and the outcome of each awaited operation. \<open>None\<close> or \<open>False\<close> is an
  operation that throws; the thrown error's message is \<open>hostErrorMessage\<close>.
  \<open>dbError\<close> is the \<open>error\<close> of the persistence answer and \<open>insertedCallRow\<close> its
  \<open>data\<close> after an insert into \<open>call_requests\<close>.
\<close>

record Env =
  now :: int
  nowIso :: string
  formatClock :: "string \<Rightarrow> string"
  hostErrorMessage :: string
  isSecureContext :: bool
  hasGetUserMedia :: bool
  getUserMedia :: "MediaStream option"
  VITE_ICE_SERVERS_JSON :: EnvJson
  iceFetch :: FetchOutcome
  createOffer :: "RTCSessionDescriptionInit option"
  createAnswer :: "RTCSessionDescriptionInit option"
  setLocalDescriptionOk :: bool
  setRemoteDescriptionOk :: bool
  addIceCandidateOk :: "RTCIceCandidateInit \<Rightarrow> bool"
  channelSendOk :: bool
  dbError :: "string option"
  insertedCallRow :: CallRequestRow

text \<open>
  The component state: the \<open>useState\<close> cells and \<open>useRef\<close> refs of \<open>App\<close> that the
  call and message handlers use, and four logs of what the handlers did to the host:
  sessions closed, tracks stopped, signals sent, persistence requests issued. The refs
  \<open>activeCallRef\<close>, \<open>incomingCallRef\<close> and \<open>pendingOutgoingCallRef\<close> mirror their state
  cells after every render and are read as the cells. The conversation cards and unread
  counters are not part of the model.
\<close>

record App =
  currentUser :: "string option"
  activeConversationId :: "int option"
  messages :: "ChatMessage list"
  messageDraft :: string
  composerBusy :: bool
  chatError :: "string option"
  callStatus :: CallStatus
  callError :: "string option"
  activeCall :: "ActiveCall option"
  incomingCall :: "ActiveCall option"
  pendingOutgoingCall :: "ActiveCall option"
  localStream :: "MediaStream option"
  remoteStream :: "MediaStream option"
  isMicMuted :: bool
  iceConfigMode :: IceConfigMode
  currentIceServers :: "RTCIceServer list"
  peerConnectionRef :: "RTCPeerConnection option"
  callSignalChannelRef :: bool
  pendingRemoteCandidatesRef :: "RTCIceCandidateInit list"
  handshakeStartedForCallRef :: "int option"
  dynamicIceCacheRef :: "(RTCIceServer list \<times> int) option"
  closedPeers :: "RTCPeerConnection list"
  stoppedTracks :: "nat list"
  sentSignals :: "(SignalEvent \<times> SignalPayload) list"
  dbOps :: "DbOp list"

text \<open>JavaScript truthiness of a \<open>string | null | undefined\<close>.\<close>

definition truthy :: "string option \<Rightarrow> bool" where
  "truthy x = (case x of None \<Rightarrow> False | Some v \<Rightarrow> v \<noteq> [])"

section \<open>Message synchronisation\<close>

text \<open>
  A string is the sequence of the UTF-8 bytes of the JavaScript string.
  \<open>String.prototype.trim\<close> removes from both ends the white space and the line
  terminators of ECMAScript: U+0009 to U+000D and U+0020 (one byte each), U+00A0 (two
  bytes), and U+1680, U+2000 to U+200A, U+2028, U+2029, U+202F, U+205F, U+3000 and
  U+FEFF (three bytes each).
\<close>

definition isSpace1 :: "char \<Rightarrow> bool" where
  "isSpace1 c = (c \<in> set [CHR 0x09, CHR 0x0A, CHR 0x0B, CHR 0x0C, CHR 0x0D, CHR 0x20])"

definition isSpace2 :: "char \<Rightarrow> char \<Rightarrow> bool" where
  "isSpace2 c d = (c = CHR 0xC2 \<and> d = CHR 0xA0)"

definition isSpace3 :: "char \<Rightarrow> char \<Rightarrow> char \<Rightarrow> bool" where
  "isSpace3 c d e =
     ((c = CHR 0xE1 \<and> d = CHR 0x9A \<and> e = CHR 0x80) \<or>
      (c = CHR 0xE2 \<and> d = CHR 0x80 \<and>
         e \<in> set [CHR 0x80, CHR 0x81, CHR 0x82, CHR 0x83, CHR 0x84, CHR 0x85, CHR 0x86,
                  CHR 0x87, CHR 0x88, CHR 0x89, CHR 0x8A, CHR 0xA8, CHR 0xA9, CHR 0xAF]) \<or>
      (c = CHR 0xE2 \<and> d = CHR 0x81 \<and> e = CHR 0x9F) \<or>
      (c = CHR 0xE3 \<and> d = CHR 0x80 \<and> e = CHR 0x80) \<or>
      (c = CHR 0xEF \<and> d = CHR 0xBB \<and> e = CHR 0xBF))"

fun trimStart :: "string \<Rightarrow> string" where
  "trimStart (c # d # e # s) =
     (if isSpace1 c then trimStart (d # e # s)
      else if isSpace2 c d then trimStart (e # s)
      else if isSpace3 c d e then trimStart s
      else c # d # e # s)"
| "trimStart [c, d] =
     (if isSpace1 c then trimStart [d] else if isSpace2 c d then [] else [c, d])"
| "trimStart [c] = (if isSpace1 c then [] else [c])"
| "trimStart [] = []"

text \<open>\<open>trimEndRev\<close> works on the reversed string: its first byte is the last byte of the
  string.\<close>

fun trimEndRev :: "string \<Rightarrow> string" where
  "trimEndRev (e # d # c # s) =
     (if isSpace1 e then trimEndRev (d # c # s)
      else if isSpace2 d e then trimEndRev (c # s)
      else if isSpace3 c d e then trimEndRev s
      else e # d # c # s)"
| "trimEndRev [e, d] =
     (if isSpace1 e then trimEndRev [d] else if isSpace2 d e then [] else [e, d])"
| "trimEndRev [e] = (if isSpace1 e then [] else [e])"
| "trimEndRev [] = []"

definition trim :: "string \<Rightarrow> string" where
  "trim s = rev (trimEndRev (rev (trimStart s)))"

text \<open>The realtime \<open>INSERT\<close> handler on table \<open>messages\<close>.\<close>

definition messagesInsert :: "Env \<Rightarrow> InsertedMessagePayload \<Rightarrow> App \<Rightarrow> App" where
  "messagesInsert env inserted s =
     (case currentUser s of
        None \<Rightarrow> s
      | Some me \<Rightarrow>
         (case (ins_conversation_id inserted, ins_id inserted) of
            (Some insertedConversationId, Some insertedId) \<Rightarrow>
              (let mine = (ins_sender_id inserted = me) in
               if Some insertedConversationId = activeConversationId s then
                 (if list_ex (\<lambda>m. msg_id m = insertedId) (messages s) then s
                  else s\<lparr>messages := messages s @
                         [\<lparr>msg_id = insertedId,
                           sender = (if mine then Me else Other),
                           senderName = (if mine then ''You'' else ''Member''),
                           content = ins_content inserted,
                           timestamp = formatClock env (ins_created_at inserted)\<rparr>]\<rparr>)
               else s)
          | _ \<Rightarrow> s))"

text \<open>
  \<open>sendMessage\<close> up to its \<open>await\<close>: the optimistic entry is appended and the insert is
  sent. The result is the placeholder id with the new state, or \<open>None\<close> when the guard
  returns early.
\<close>

definition sendMessage_begin :: "Env \<Rightarrow> App \<Rightarrow> (int \<times> App) option" where
  "sendMessage_begin env s =
     (let trimmed = trim (messageDraft s) in
      case (currentUser s, activeConversationId s) of
        (Some me, Some conv) \<Rightarrow>
          if trimmed = [] \<or> composerBusy s then None
          else
            (let optimisticId = - now env in
             Some (optimisticId,
               s\<lparr>messageDraft := [],
                 messages := messages s @
                   [\<lparr>msg_id = optimisticId, sender = Me, senderName = ''You'',
                     content = trimmed, timestamp = formatClock env (nowIso env)\<rparr>],
                 composerBusy := True,
                 chatError := None,
                 dbOps := dbOps s @ [InsertMessage conv me trimmed]\<rparr>))
      | _ \<Rightarrow> None)"

text \<open>
  \<open>sendMessage\<close> after its \<open>await\<close>: the persistence layer answered with an error
  message, or with \<open>Number(data.id)\<close> and \<open>created_at\<close>.
\<close>

definition sendMessage_end ::
  "Env \<Rightarrow> int \<Rightarrow> string + (int option \<times> string) \<Rightarrow> App \<Rightarrow> App" where
  "sendMessage_end env optimisticId result s =
     (case result of
        Inl message \<Rightarrow>
          s\<lparr>chatError := Some message,
            messages := filter (\<lambda>m. msg_id m \<noteq> optimisticId) (messages s),
            composerBusy := False\<rparr>
      | Inr (insertedId, createdAt) \<Rightarrow>
          s\<lparr>messages := map (\<lambda>m. if msg_id m = optimisticId
                     then m\<lparr>msg_id := (case insertedId of Some i \<Rightarrow> i | None \<Rightarrow> optimisticId),
                           timestamp := formatClock env createdAt\<rparr>
                     else m) (messages s),
            composerBusy := False\<rparr>)"

definition entriesWithId :: "int \<Rightarrow> App \<Rightarrow> nat" where
  "entriesWithId i s = length (filter (\<lambda>m. msg_id m = i) (messages s))"

section \<open>Relay-server configuration\<close>

definition defaultIceServers :: "RTCIceServer list" where
  "defaultIceServers =
     [\<lparr>urls = UrlArray [''stun:stun.l.google.com:19302'', ''stun:stun1.l.google.com:19302''],
       username = None, credential = None\<rparr>]"

text \<open>Property access on a parsed JSON object: a missing key reads \<open>undefined\<close>.\<close>

definition getField :: "(string \<times> json) list \<Rightarrow> string \<Rightarrow> json" where
  "getField obj k = (case map_of obj k of None \<Rightarrow> JUndefined | Some v \<Rightarrow> v)"

fun asString :: "json \<Rightarrow> string option" where
  "asString (JStr x) = Some x"
| "asString _ = None"

fun nullish :: "json \<Rightarrow> bool" where
  "nullish JUndefined = True"
| "nullish JNull = True"
| "nullish _ = False"

fun asUrls :: "json \<Rightarrow> Urls option" where
  "asUrls (JStr x) = Some (UrlString x)"
| "asUrls (JArr items) = map_option UrlArray (those (map asString items))"
| "asUrls _ = None"

definition normalizeIceServer :: "json \<Rightarrow> RTCIceServer option" where
  "normalizeIceServer entry =
     (case entry of
        JObj val \<Rightarrow>
          (case asUrls (if nullish (getField val ''urls'') then getField val ''url''
                        else getField val ''urls'') of
             None \<Rightarrow> None
           | Some u \<Rightarrow>
               Some \<lparr>urls = u,
                     username = asString (getField val ''username''),
                     credential = asString (getField val ''credential'')\<rparr>)
      | _ \<Rightarrow> None)"

definition sanitizeIceServers :: "json \<Rightarrow> RTCIceServer list" where
  "sanitizeIceServers val =
     (case val of JArr entries \<Rightarrow> List.map_filter normalizeIceServer entries | _ \<Rightarrow> [])"

text \<open>The pattern \<open>/^turns?:/i\<close>: only the letters of the pattern need their case folded.\<close>

definition foldCase :: "char \<Rightarrow> char" where
  "foldCase c =
     (if c = CHR ''T'' then CHR ''t'' else if c = CHR ''U'' then CHR ''u''
      else if c = CHR ''R'' then CHR ''r'' else if c = CHR ''N'' then CHR ''n''
      else if c = CHR ''S'' then CHR ''s'' else c)"

definition isTurnUrl :: "string \<Rightarrow> bool" where
  "isTurnUrl url =
     (map foldCase (take 5 url) = ''turn:'' \<or> map foldCase (take 6 url) = ''turns:'')"

definition urlList :: "RTCIceServer \<Rightarrow> string list" where
  "urlList server = (case urls server of UrlString u \<Rightarrow> [u] | UrlArray us \<Rightarrow> us)"

definition hasTurnServer :: "RTCIceServer list \<Rightarrow> bool" where
  "hasTurnServer servers = list_ex (\<lambda>server. list_ex isTurnUrl (urlList server)) servers"

definition parseIceServers :: "EnvJson \<Rightarrow> RTCIceServer list" where
  "parseIceServers raw =
     (case raw of
        EnvBlank \<Rightarrow> defaultIceServers
      | EnvUnparsable \<Rightarrow> defaultIceServers
      | EnvParsed parsed \<Rightarrow>
          (let valid = sanitizeIceServers parsed
           in if valid \<noteq> [] then valid else defaultIceServers))"

definition ICE_SERVERS :: "Env \<Rightarrow> RTCIceServer list" where
  "ICE_SERVERS env = parseIceServers (VITE_ICE_SERVERS_JSON env)"

text \<open>The \<open>catch\<close> branch of \<open>resolveIceServers\<close>.\<close>

definition resolveFallback :: "Env \<Rightarrow> App \<Rightarrow> RTCIceServer list \<times> App" where
  "resolveFallback env s =
     (ICE_SERVERS env, s\<lparr>currentIceServers := ICE_SERVERS env, iceConfigMode := ModeEnv\<rparr>)"

definition ttlSecondsOf :: "jsnum \<Rightarrow> int" where
  "ttlSecondsOf ttlCandidate =
     (case ttlCandidate of Num r \<Rightarrow> (if r > 0 then \<lfloor>r\<rfloor> else 600) | _ \<Rightarrow> 600)"

definition cacheFresh :: "Env \<Rightarrow> App \<Rightarrow> bool" where
  "cacheFresh env s =
     (case dynamicIceCacheRef s of
        None \<Rightarrow> False
      | Some (servers, expiresAt) \<Rightarrow> expiresAt > now env + 15000)"

definition resolveIceServers :: "Env \<Rightarrow> App \<Rightarrow> RTCIceServer list \<times> App" where
  "resolveIceServers env s =
     (case (if cacheFresh env s then dynamicIceCacheRef s else None) of
        Some (servers, expiresAt) \<Rightarrow> (servers, s)
      | None \<Rightarrow>
         (case iceFetch env of
            FetchThrows \<Rightarrow> resolveFallback env s
          | FetchResponse ok payload \<Rightarrow>
              if \<not> ok then resolveFallback env s
              else
                (let parsedServers = sanitizeIceServers (iceServers payload) in
                 if parsedServers = [] then resolveFallback env s
                 else
                   (let ttlSeconds = ttlSecondsOf (ttlSecondsNumber payload);
                        refreshSeconds = max 30 (ttlSeconds - 60)
                    in (parsedServers,
                        s\<lparr>dynamicIceCacheRef :=
                             Some (parsedServers, now env + refreshSeconds * 1000),
                          currentIceServers := parsedServers,
                          iceConfigMode := ModeDynamic\<rparr>)))))"

section \<open>Media negotiation\<close>

definition normalizeCall :: "CallRequestRow \<Rightarrow> ActiveCall option" where
  "normalizeCall row =
     (case (row_id row, row_conversation_id row) of
        (Some i, Some c) \<Rightarrow>
          (case row_requester_id row of
             None \<Rightarrow> None
           | Some r \<Rightarrow>
               if r = [] then None
               else Some \<lparr>call_id = i, conversationId = c, requesterId = r,
                          acceptedBy = row_accepted_by row,
                          status = (case row_status row of None \<Rightarrow> Pending | Some st \<Rightarrow> st)\<rparr>)
      | _ \<Rightarrow> None)"

definition streamTracks :: "MediaStream option \<Rightarrow> nat list" where
  "streamTracks st = (case st of None \<Rightarrow> [] | Some tracks \<Rightarrow> tracks)"

definition resetCallMedia :: "App \<Rightarrow> App" where
  "resetCallMedia s =
     s\<lparr>closedPeers := closedPeers s @ (case peerConnectionRef s of None \<Rightarrow> [] | Some p \<Rightarrow> [p]),
       peerConnectionRef := None,
       pendingRemoteCandidatesRef := [],
       handshakeStartedForCallRef := None,
       stoppedTracks := stoppedTracks s @ streamTracks (localStream s) @ streamTracks (remoteStream s),
       localStream := None,
       remoteStream := None,
       isMicMuted := False\<rparr>"

text \<open>\<open>assertMediaContext\<close>: the message of the error it throws, if it throws.\<close>

definition assertMediaContext :: "Env \<Rightarrow> string option" where
  "assertMediaContext env =
     (if \<not> isSecureContext env
      then Some ''Calls need secure context. Open this app on trusted HTTPS (or localhost).''
      else if \<not> hasGetUserMedia env
      then Some ''This browser/device does not allow camera or microphone access.''
      else None)"

definition ensureLocalStream :: "Env \<Rightarrow> App \<Rightarrow> string + (MediaStream \<times> App)" where
  "ensureLocalStream env s =
     (case assertMediaContext env of
        Some message \<Rightarrow> Inl message
      | None \<Rightarrow>
         (case localStream s of
            Some stream \<Rightarrow> Inr (stream, s)
          | None \<Rightarrow>
             (case getUserMedia env of
                None \<Rightarrow> Inl (hostErrorMessage env)
              | Some stream \<Rightarrow> Inr (stream, s\<lparr>localStream := Some stream\<rparr>))))"

text \<open>\<open>sendCallSignal\<close>: \<open>None\<close> when \<open>channel.send\<close> throws.\<close>

definition sendCallSignal :: "Env \<Rightarrow> SignalEvent \<Rightarrow> SignalPayload \<Rightarrow> App \<Rightarrow> App option" where
  "sendCallSignal env ev payload s =
     (if \<not> callSignalChannelRef s then Some s
      else if channelSendOk env then Some (s\<lparr>sentSignals := sentSignals s @ [(ev, payload)]\<rparr>)
      else None)"

definition addIceCandidate ::
  "Env \<Rightarrow> RTCIceCandidateInit \<Rightarrow> RTCPeerConnection \<Rightarrow> RTCPeerConnection" where
  "addIceCandidate env c peer =
     peer\<lparr>addIceCandidateCalls := addIceCandidateCalls peer @ [c],
          addedCandidates := (if addIceCandidateOk env c then addedCandidates peer @ [c]
                              else addedCandidates peer)\<rparr>"

text \<open>The loop of \<open>flushPendingRemoteCandidates\<close>: each candidate in turn, a failure of
  \<open>addIceCandidate\<close> being caught inside the loop body.\<close>

fun addQueued ::
  "Env \<Rightarrow> RTCIceCandidateInit list \<Rightarrow> RTCPeerConnection \<Rightarrow> RTCPeerConnection" where
  "addQueued env [] peer = peer"
| "addQueued env (c # queued) peer = addQueued env queued (addIceCandidate env c peer)"

definition flushPendingRemoteCandidates :: "Env \<Rightarrow> App \<Rightarrow> App" where
  "flushPendingRemoteCandidates env s =
     (case peerConnectionRef s of
        None \<Rightarrow> s
      | Some peer \<Rightarrow>
          if remoteDescription peer = None then s
          else
            (let queued = pendingRemoteCandidatesRef s in
             if queued = [] then s
             else s\<lparr>pendingRemoteCandidatesRef := [],
                    peerConnectionRef := Some (addQueued env queued peer)\<rparr>))"

definition createPeerConnection ::
  "ActiveCall \<Rightarrow> MediaStream \<Rightarrow> string \<Rightarrow> RTCIceServer list \<Rightarrow> App \<Rightarrow> RTCPeerConnection \<times> App" where
  "createPeerConnection call stream myUserId servers s =
     (let peer = \<lparr>pc_iceServers = servers, pc_call = call, pc_myUserId = myUserId,
                  pc_tracks = stream, remoteDescription = None, localDescription = None,
                  addIceCandidateCalls = [], addedCandidates = []\<rparr>
      in (peer,
          s\<lparr>closedPeers := closedPeers s @ (case peerConnectionRef s of None \<Rightarrow> [] | Some p \<Rightarrow> [p]),
            peerConnectionRef := Some peer\<rparr>))"

text \<open>A successful \<open>peer.setLocalDescription\<close> on the session the ref holds.\<close>

definition setLocalDescription :: "RTCSessionDescriptionInit \<Rightarrow> App \<Rightarrow> App" where
  "setLocalDescription sdp s =
     s\<lparr>peerConnectionRef :=
         map_option (\<lambda>peer. peer\<lparr>localDescription := Some sdp\<rparr>) (peerConnectionRef s)\<rparr>"

text \<open>The \<open>catch\<close> branch of \<open>startCallerHandshake\<close>.\<close>

definition handshakeFailed :: "string \<Rightarrow> App \<Rightarrow> App" where
  "handshakeFailed message s =
     s\<lparr>handshakeStartedForCallRef := None, callStatus := StError, callError := Some message\<rparr>"

definition startCallerHandshake :: "Env \<Rightarrow> ActiveCall \<Rightarrow> string \<Rightarrow> App \<Rightarrow> App" where
  "startCallerHandshake env call callerId s =
     (if \<not> truthy (acceptedBy call) then s
      else if handshakeStartedForCallRef s = Some (call_id call) \<and> peerConnectionRef s \<noteq> None
      then s
      else
        (let s1 = s\<lparr>handshakeStartedForCallRef := Some (call_id call),
                     callStatus := StConnecting\<rparr> in
         case ensureLocalStream env s1 of
           Inl message \<Rightarrow> handshakeFailed message s1
         | Inr (stream, s2) \<Rightarrow>
            (case resolveIceServers env s2 of
               (servers, s3) \<Rightarrow>
                (case createPeerConnection call stream callerId servers s3 of
                   (peer, s4) \<Rightarrow>
                    (case createOffer env of
                       None \<Rightarrow> handshakeFailed (hostErrorMessage env) s4
                     | Some offer \<Rightarrow>
                         if \<not> setLocalDescriptionOk env
                         then handshakeFailed (hostErrorMessage env) s4
                         else
                           (let s5 = setLocalDescription offer s4 in
                            case sendCallSignal env WebrtcOffer
                                   \<lparr>sig_callId = call_id call, sig_from = callerId,
                                    sig_to = acceptedBy call,
                                    sig_conversationId = conversationId call,
                                    sig_sdp = Some offer, sig_candidate = None\<rparr> s5 of
                              None \<Rightarrow> handshakeFailed (hostErrorMessage env) s5
                            | Some s6 \<Rightarrow> s6))))))"

section \<open>Call lifecycle controller\<close>

definition isRelated :: "int \<Rightarrow> App \<Rightarrow> bool" where
  "isRelated i s =
     (map_option call_id (activeCall s) = Some i \<or>
      map_option call_id (incomingCall s) = Some i \<or>
      map_option call_id (pendingOutgoingCall s) = Some i)"

definition clearCallSlots :: "App \<Rightarrow> App" where
  "clearCallSlots s = s\<lparr>activeCall := None, incomingCall := None, pendingOutgoingCall := None\<rparr>"

text \<open>\<open>handleCallChange\<close>, the handler of \<open>INSERT\<close> and \<open>UPDATE\<close> notifications on table
  \<open>call_requests\<close>. It is subscribed only while a user is signed in.\<close>

definition handleCallChange :: "Env \<Rightarrow> CallRequestRow \<Rightarrow> App \<Rightarrow> App" where
  "handleCallChange env raw s =
     (case currentUser s of
        None \<Rightarrow> s
      | Some me \<Rightarrow>
         (case normalizeCall raw of
            None \<Rightarrow> s
          | Some call \<Rightarrow>
              if status call = Pending then
                (if requesterId call = me
                 then s\<lparr>pendingOutgoingCall := Some call, callStatus := StRequesting\<rparr>
                 else s\<lparr>incomingCall := Some call,
                        callStatus := (if callStatus s = StIdle then StRinging else callStatus s)\<rparr>)
              else if status call = Accepted then
                (let s1 = s\<lparr>activeConversationId := Some (conversationId call)\<rparr> in
                 if requesterId call = me \<and> truthy (acceptedBy call) then
                   (let s2 = s1\<lparr>pendingOutgoingCall := None, callError := None,
                                 activeCall := Some call\<rparr> in
                    if peerConnectionRef s2 = None then startCallerHandshake env call me s2
                    else s2)
                 else if acceptedBy call = Some me then
                   s1\<lparr>incomingCall := None, callError := None, activeCall := Some call,
                      callStatus := StConnecting\<rparr>
                 else s1)
              else
                (if \<not> isRelated (call_id call) s then s
                 else
                   (let s1 = clearCallSlots (resetCallMedia s);
                        s2 = (if status call = Rejected \<and> requesterId call = me
                              then s1\<lparr>callError := Some ''Call was declined.''\<rparr> else s1)
                    in s2\<lparr>callStatus := StIdle\<rparr>))))"

text \<open>The test \<open>signal.to && signal.to !== currentUser.id\<close> that opens four of the five
  broadcast handlers.\<close>

definition forSomeoneElse :: "string \<Rightarrow> SignalPayload \<Rightarrow> bool" where
  "forSomeoneElse me signal = (truthy (sig_to signal) \<and> sig_to signal \<noteq> Some me)"

definition onCallAccepted :: "Env \<Rightarrow> string \<Rightarrow> SignalPayload \<Rightarrow> App \<Rightarrow> App" where
  "onCallAccepted env me signal s =
     (if forSomeoneElse me signal then s
      else
        (case pendingOutgoingCall s of
           None \<Rightarrow> s
         | Some pending \<Rightarrow>
             if call_id pending \<noteq> sig_callId signal then s
             else
               (let accepted = pending\<lparr>acceptedBy := Some (sig_from signal), status := Accepted\<rparr>
                in startCallerHandshake env accepted me
                     (s\<lparr>pendingOutgoingCall := None, activeCall := Some accepted,
                        callStatus := StConnecting,
                        activeConversationId := Some (conversationId accepted)\<rparr>))))"

text \<open>The \<open>catch\<close> branch of the \<open>webrtc-offer\<close> handler.\<close>

definition answerFailed :: "string \<Rightarrow> App \<Rightarrow> App" where
  "answerFailed message s = s\<lparr>callStatus := StError, callError := Some message\<rparr>"

text \<open>The \<open>try\<close> block of the \<open>webrtc-offer\<close> handler, for the call it resolved.\<close>

definition answerOffer ::
  "Env \<Rightarrow> string \<Rightarrow> SignalPayload \<Rightarrow> RTCSessionDescriptionInit \<Rightarrow> ActiveCall \<Rightarrow> App \<Rightarrow> App" where
  "answerOffer env me signal sdp call s =
     (let s1 = s\<lparr>callStatus := StConnecting\<rparr> in
      case ensureLocalStream env s1 of
        Inl message \<Rightarrow> answerFailed message s1
      | Inr (stream, s2) \<Rightarrow>
         (case resolveIceServers env s2 of
            (servers, s3) \<Rightarrow>
             (case createPeerConnection call stream me servers s3 of
                (peer, s4) \<Rightarrow>
                  if \<not> setRemoteDescriptionOk env then answerFailed (hostErrorMessage env) s4
                  else
                    (let s5 = flushPendingRemoteCandidates env
                                (s4\<lparr>peerConnectionRef :=
                                      Some (peer\<lparr>remoteDescription := Some sdp\<rparr>)\<rparr>) in
                     case createAnswer env of
                       None \<Rightarrow> answerFailed (hostErrorMessage env) s5
                     | Some answer \<Rightarrow>
                         if \<not> setLocalDescriptionOk env
                         then answerFailed (hostErrorMessage env) s5
                         else
                           (let s6 = setLocalDescription answer s5 in
                            case sendCallSignal env WebrtcAnswer
                                   \<lparr>sig_callId = call_id call, sig_from = me,
                                    sig_to = Some (sig_from signal),
                                    sig_conversationId = conversationId call,
                                    sig_sdp = Some answer, sig_candidate = None\<rparr> s6 of
                              None \<Rightarrow> answerFailed (hostErrorMessage env) s6
                            | Some s7 \<Rightarrow> s7)))))"

definition onWebrtcOffer :: "Env \<Rightarrow> string \<Rightarrow> SignalPayload \<Rightarrow> App \<Rightarrow> App" where
  "onWebrtcOffer env me signal s =
     (if forSomeoneElse me signal then s
      else
        (case sig_sdp signal of
           None \<Rightarrow> s
         | Some sdp \<Rightarrow>
             (case (case activeCall s of
                      None \<Rightarrow> None
                    | Some c \<Rightarrow> if call_id c = sig_callId signal then Some c else None) of
                Some call \<Rightarrow> answerOffer env me signal sdp call s
              | None \<Rightarrow>
                 (case incomingCall s of
                    None \<Rightarrow> s
                  | Some incoming \<Rightarrow>
                      if call_id incoming \<noteq> sig_callId signal then s
                      else
                        (let call = incoming\<lparr>status := Accepted, acceptedBy := Some me\<rparr>
                         in answerOffer env me signal sdp call
                              (s\<lparr>incomingCall := None, activeCall := Some call\<rparr>))))))"

definition onWebrtcAnswer :: "Env \<Rightarrow> string \<Rightarrow> SignalPayload \<Rightarrow> App \<Rightarrow> App" where
  "onWebrtcAnswer env me signal s =
     (if forSomeoneElse me signal then s
      else
        (case (sig_sdp signal, peerConnectionRef s) of
           (Some sdp, Some peer) \<Rightarrow>
             if \<not> setRemoteDescriptionOk env then s
             else flushPendingRemoteCandidates env
                    (s\<lparr>peerConnectionRef := Some (peer\<lparr>remoteDescription := Some sdp\<rparr>)\<rparr>)
         | _ \<Rightarrow> s))"

definition onWebrtcIce :: "Env \<Rightarrow> string \<Rightarrow> SignalPayload \<Rightarrow> App \<Rightarrow> App" where
  "onWebrtcIce env me signal s =
     (if forSomeoneElse me signal then s
      else
        (case (sig_candidate signal, peerConnectionRef s) of
           (Some candidate, Some peer) \<Rightarrow>
             if remoteDescription peer \<noteq> None
             then s\<lparr>peerConnectionRef := Some (addIceCandidate env candidate peer)\<rparr>
             else s\<lparr>pendingRemoteCandidatesRef := pendingRemoteCandidatesRef s @ [candidate]\<rparr>
         | _ \<Rightarrow> s))"

definition onCallEnded :: "SignalPayload \<Rightarrow> App \<Rightarrow> App" where
  "onCallEnded signal s =
     (if \<not> isRelated (sig_callId signal) s then s
      else (clearCallSlots (resetCallMedia s))\<lparr>callStatus := StIdle\<rparr>)"

text \<open>The five handlers of channel \<open>call-signal-global\<close>, subscribed only while a user
  is signed in.\<close>

definition handleSignal :: "Env \<Rightarrow> SignalEvent \<Rightarrow> SignalPayload \<Rightarrow> App \<Rightarrow> App" where
  "handleSignal env ev signal s =
     (case currentUser s of
        None \<Rightarrow> s
      | Some me \<Rightarrow>
         (case ev of
            CallAcceptedEv \<Rightarrow> onCallAccepted env me signal s
          | WebrtcOffer \<Rightarrow> onWebrtcOffer env me signal s
          | WebrtcAnswer \<Rightarrow> onWebrtcAnswer env me signal s
          | WebrtcIce \<Rightarrow> onWebrtcIce env me signal s
          | CallEndedEv \<Rightarrow> onCallEnded signal s))"

text \<open>
  The effect on \<open>callStatus\<close> that arms a 12000 ms timer while the status is
  \<open>connecting\<close> and clears it when the status changes: the deadline of the timer armed
  when the status became \<open>st\<close> at time \<open>t0\<close>.
\<close>

definition connectingDeadline :: "CallStatus \<Rightarrow> int \<Rightarrow> int option" where
  "connectingDeadline st t0 = (if st \<noteq> StConnecting then None else Some (t0 + 12000))"

definition stillConnecting :: string where
  "stillConnecting = ''Still connecting. This usually means peer networking is blocked; TURN server is required.''"

definition connectingTimeoutFired :: "App \<Rightarrow> App" where
  "connectingTimeoutFired s = s\<lparr>callError := Some stillConnecting\<rparr>"

text \<open>The state once \<open>callStatus\<close> has kept its value for \<open>elapsed\<close> milliseconds and no
  other handler has run.\<close>

definition afterStatusHeldFor :: "int \<Rightarrow> App \<Rightarrow> App" where
  "afterStatusHeldFor elapsed s =
     (case connectingDeadline (callStatus s) 0 of
        None \<Rightarrow> s
      | Some deadline \<Rightarrow> if deadline \<le> elapsed then connectingTimeoutFired s else s)"

subsection \<open>User intents\<close>

definition callFailed :: "string \<Rightarrow> App \<Rightarrow> App" where
  "callFailed message s = s\<lparr>callStatus := StError, callError := Some message\<rparr>"

definition requestCall :: "Env \<Rightarrow> App \<Rightarrow> App" where
  "requestCall env s =
     (case (currentUser s, activeConversationId s) of
        (Some me, Some conv) \<Rightarrow>
          if callStatus s = StConnecting \<or> callStatus s = StInCall \<or> callStatus s = StRequesting
          then s
          else
            (case assertMediaContext env of
               Some message \<Rightarrow> callFailed message s
             | None \<Rightarrow>
                (let s1 = s\<lparr>callError := None,
                             dbOps := dbOps s @ [InsertCallRequest conv me Pending]\<rparr> in
                 case dbError env of
                   Some message \<Rightarrow> callFailed message s1
                 | None \<Rightarrow>
                    (case normalizeCall (insertedCallRow env) of
                       None \<Rightarrow> callFailed ''Failed to create call request.'' s1
                     | Some pending \<Rightarrow>
                         s1\<lparr>pendingOutgoingCall := Some pending,
                            callStatus := StRequesting\<rparr>)))
      | _ \<Rightarrow> s)"

text \<open>After its state updates \<open>acceptIncomingCall\<close> awaits \<open>sendCallSignal\<close>; a throw
  there leaves the updates in place.\<close>

definition acceptIncomingCall :: "Env \<Rightarrow> App \<Rightarrow> App" where
  "acceptIncomingCall env s =
     (case (incomingCall s, currentUser s) of
        (Some incoming, Some me) \<Rightarrow>
          (let s1 = s\<lparr>dbOps := dbOps s @ [UpdateCallRequest (call_id incoming) Accepted (Some me)]\<rparr> in
           case dbError env of
             Some message \<Rightarrow> callFailed message s1
           | None \<Rightarrow>
              (let acceptedCall = incoming\<lparr>status := Accepted, acceptedBy := Some me\<rparr>;
                   s2 = s1\<lparr>activeConversationId := Some (conversationId acceptedCall),
                           incomingCall := None,
                           activeCall := Some acceptedCall,
                           callStatus := StConnecting,
                           callError := None\<rparr> in
               case sendCallSignal env CallAcceptedEv
                      \<lparr>sig_callId = call_id acceptedCall, sig_from = me,
                       sig_to = Some (requesterId acceptedCall),
                       sig_conversationId = conversationId acceptedCall,
                       sig_sdp = None, sig_candidate = None\<rparr> s2 of
                 None \<Rightarrow> s2
               | Some s3 \<Rightarrow> s3))
      | _ \<Rightarrow> s)"

definition rejectIncomingCall :: "Env \<Rightarrow> App \<Rightarrow> App" where
  "rejectIncomingCall env s =
     (case (incomingCall s, currentUser s) of
        (Some incoming, Some me) \<Rightarrow>
          (let s1 = s\<lparr>dbOps := dbOps s @ [UpdateCallRequest (call_id incoming) Rejected (Some me)]\<rparr> in
           case dbError env of
             Some message \<Rightarrow> callFailed message s1
           | None \<Rightarrow> s1\<lparr>incomingCall := None, callStatus := StIdle\<rparr>)
      | _ \<Rightarrow> s)"

text \<open>\<open>activeCall || pendingOutgoingCall || incomingCall\<close>\<close>

definition currentCall :: "App \<Rightarrow> ActiveCall option" where
  "currentCall s =
     (case activeCall s of
        Some c \<Rightarrow> Some c
      | None \<Rightarrow> (case pendingOutgoingCall s of Some c \<Rightarrow> Some c | None \<Rightarrow> incomingCall s))"

definition nextStatus :: "string \<Rightarrow> ActiveCall \<Rightarrow> CallRequestStatus" where
  "nextStatus me current =
     (if status current = Pending \<and> requesterId current = me then Cancelled else Ended)"

text \<open>The part of \<open>endCall\<close> after the signal is sent.\<close>

definition endCallTeardown :: "App \<Rightarrow> App" where
  "endCallTeardown s = (clearCallSlots (resetCallMedia s))\<lparr>callStatus := StIdle\<rparr>"

definition endCall :: "Env \<Rightarrow> App \<Rightarrow> App" where
  "endCall env s =
     (case currentUser s of
        None \<Rightarrow> s
      | Some me \<Rightarrow>
         (case currentCall s of
            None \<Rightarrow> s
          | Some current \<Rightarrow>
             (let s1 = s\<lparr>dbOps := dbOps s @
                           [UpdateCallRequest (call_id current) (nextStatus me current) None]\<rparr> in
              case dbError env of
                Some message \<Rightarrow> callFailed message s1
              | None \<Rightarrow>
                 (let targetId = (if me = requesterId current then acceptedBy current
                                  else Some (requesterId current)) in
                  if truthy targetId then
                    (case sendCallSignal env CallEndedEv
                            \<lparr>sig_callId = call_id current, sig_from = me, sig_to = targetId,
                             sig_conversationId = conversationId current,
                             sig_sdp = None, sig_candidate = None\<rparr> s1 of
                       None \<Rightarrow> s1
                     | Some s2 \<Rightarrow> endCallTeardown s2)
                  else endCallTeardown s1))))"

subsection \<open>The call button of the conversation header\<close>

text \<open>
  \<open>callForActiveConversation\<close>: the call of the open conversation that the header
  shows, the incoming call first, then the pending outgoing call, then the active call.
\<close>

definition inOpenConversation :: "App \<Rightarrow> ActiveCall option \<Rightarrow> ActiveCall option" where
  "inOpenConversation s slot =
     (case slot of
        None \<Rightarrow> None
      | Some c \<Rightarrow> if Some (conversationId c) = activeConversationId s then Some c else None)"

definition callForActiveConversation :: "App \<Rightarrow> ActiveCall option" where
  "callForActiveConversation s =
     (case inOpenConversation s (incomingCall s) of
        Some c \<Rightarrow> Some c
      | None \<Rightarrow>
         (case inOpenConversation s (pendingOutgoingCall s) of
            Some c \<Rightarrow> Some c
          | None \<Rightarrow> inOpenConversation s (activeCall s)))"

text \<open>
  The only place that invokes \<open>requestCall\<close> is the click handler of the header button,
  \<open>callForActiveConversation ? endCall : requestCall\<close>; the button is disabled while no
  conversation is open and while the status is \<open>connecting\<close>.
\<close>

definition callButtonClick :: "Env \<Rightarrow> App \<Rightarrow> App" where
  "callButtonClick env s =
     (if activeConversationId s = None \<or> callStatus s = StConnecting then s
      else
        (case callForActiveConversation s of
           Some c \<Rightarrow> endCall env s
         | None \<Rightarrow> requestCall env s))"



subsection \<open>Session events\<close>

text \<open>The \<open>onconnectionstatechange\<close> and \<open>oniceconnectionstatechange\<close> handlers that
  \<open>createPeerConnection\<close> installs, for the state that the session reports.\<close>

datatype RTCPeerConnectionState = PcConnected | PcFailed | PcOther


definition oniceconnectionstatechange :: "RTCPeerConnectionState \<Rightarrow> App \<Rightarrow> App" where
  "oniceconnectionstatechange st s =
     (case st of
        PcFailed \<Rightarrow>
          s\<lparr>callStatus := StError,
            callError := Some ''Could not establish media route. Add TURN server for restricted networks.''\<rparr>
      | _ \<Rightarrow> s)"

subsection \<open>Sequences of envelopes\<close>

text \<open>Envelopes of one kind handled one after the other, in their order of arrival.\<close>

definition receiveAll :: "Env \<Rightarrow> SignalEvent \<Rightarrow> SignalPayload list \<Rightarrow> App \<Rightarrow> App" where
  "receiveAll env ev signals s = foldl (\<lambda>st signal. handleSignal env ev signal st) s signals"
subsection \<open>The three call slots\<close>

definition slots :: "App \<Rightarrow> ActiveCall option \<times> ActiveCall option \<times> ActiveCall option" where
  "slots s = (activeCall s, incomingCall s, pendingOutgoingCall s)"

text \<open>The calls that the slots hold, and the number of them that belong to a conversation.\<close>

definition slotCalls :: "App \<Rightarrow> ActiveCall list" where
  "slotCalls s = List.map_filter id [activeCall s, incomingCall s, pendingOutgoingCall s]"

definition atMostOneCall :: "App \<Rightarrow> bool" where
  "atMostOneCall s = (length (slotCalls s) \<le> 1)"

definition callsInConversation :: "int \<Rightarrow> App \<Rightarrow> nat" where
  "callsInConversation conv s = length (filter (\<lambda>c. conversationId c = conv) (slotCalls s))"

text \<open>What a repeated delivery is compared on: the slots, the call status, the session
  and the candidate queue.\<close>

definition observable ::
  "App \<Rightarrow> (ActiveCall option \<times> ActiveCall option \<times> ActiveCall option) \<times> CallStatus \<times>
          RTCPeerConnection option \<times> RTCIceCandidateInit list" where
  "observable s = (slots s, callStatus s, peerConnectionRef s, pendingRemoteCandidatesRef s)"

section \<open>The update policies of table call_requests\<close>

text \<open>
  The columns of a row of \<open>call_requests\<close> that the policies read are the fields of
  \<open>ActiveCall\<close>. \<open>applyUpdate\<close> is the row that an update request of the client asks
  for: the new status, and the new \<open>accepted_by\<close> when the request carries one.
\<close>

definition applyUpdate :: "DbOp \<Rightarrow> ActiveCall \<Rightarrow> ActiveCall" where
  "applyUpdate req row =
     (case req of
        UpdateCallRequest i st acceptor \<Rightarrow>
          if call_id row = i
          then row\<lparr>status := st,
                   acceptedBy := (case acceptor of None \<Rightarrow> acceptedBy row | Some a \<Rightarrow> Some a)\<rparr>
          else row
      | _ \<Rightarrow> row)"

text \<open>
  Policy \<open>call_requests_update_requester_or_acceptor\<close>: its \<open>using\<close> expression, read
  on the stored row, and its \<open>with check\<close> expression, read on the new row, for the
  user \<open>uid\<close> who sends the update.
\<close>

definition call_requests_update_requester_or_acceptor ::
  "string \<Rightarrow> ActiveCall \<Rightarrow> ActiveCall \<Rightarrow> bool" where
  "call_requests_update_requester_or_acceptor uid stored new =
     ((status stored = Pending \<or> uid = requesterId stored \<or> Some uid = acceptedBy stored) \<and>
      (uid = requesterId new \<or> Some uid = acceptedBy new))"

text \<open>
  Policy \<open>call_requests_update_member\<close>, which the membership migration puts in its
  place; \<open>isMember conv uid\<close> says that \<open>conversation_members\<close> has a row for them.
\<close>

definition call_requests_update_member ::
  "(int \<Rightarrow> string \<Rightarrow> bool) \<Rightarrow> string \<Rightarrow> ActiveCall \<Rightarrow> ActiveCall \<Rightarrow> bool" where
  "call_requests_update_member isMember uid stored new =
     (isMember (conversationId stored) uid \<and>
      (isMember (conversationId new) uid \<and>
       (requesterId new = uid \<or> acceptedBy new = Some uid \<or>
        ((status new = Accepted \<or> status new = Rejected) \<and> acceptedBy new = Some uid))))"
section \<open>The transition graph of the specification\<close>

text \<open>The transitions that the specification allows for the status of a call request:
  pending to accepted, rejected or cancelled, and accepted to ended.\<close>

definition specTransition :: "CallRequestStatus \<Rightarrow> CallRequestStatus \<Rightarrow> bool" where
  "specTransition a b =
     ((a = Pending \<and> b = Accepted) \<or> (a = Pending \<and> b = Rejected) \<or>
      (a = Pending \<and> b = Cancelled) \<or> (a = Accepted \<and> b = Ended))"

section \<open>Initial state and example hosts\<close>

text \<open>The initial values of the state cells and refs.\<close>

definition initialApp :: "Env \<Rightarrow> App" where
  "initialApp env =
     \<lparr>currentUser = None, activeConversationId = None, messages = [], messageDraft = [],
      composerBusy = False, chatError = None, callStatus = StIdle, callError = None,
      activeCall = None, incomingCall = None, pendingOutgoingCall = None,
      localStream = None, remoteStream = None, isMicMuted = False,
      iceConfigMode = ModeEnv, currentIceServers = ICE_SERVERS env,
      peerConnectionRef = None, callSignalChannelRef = False,
      pendingRemoteCandidatesRef = [], handshakeStartedForCallRef = None,
      dynamicIceCacheRef = None, closedPeers = [], stoppedTracks = [],
      sentSignals = [], dbOps = []\<rparr>"

text \<open>The state once user \<open>me\<close> is signed in, the signalling channel is subscribed and
  conversation \<open>conv\<close> is open.\<close>

definition signedIn :: "Env \<Rightarrow> string \<Rightarrow> int \<Rightarrow> App" where
  "signedIn env me conv =
     (initialApp env)\<lparr>currentUser := Some me, callSignalChannelRef := True,
                      activeConversationId := Some conv\<rparr>"

text \<open>A host on which every awaited operation succeeds: the persistence layer answers an
  insert into \<open>call_requests\<close> with row 1 of conversation 7 requested by \<open>alice\<close>, the
  relay-credential service answers with one TURN server and a lifetime of 3600 s.\<close>

definition turnEntry :: json where
  "turnEntry = JObj [(''urls'', JStr ''turn:relay.example.org:3478''),
                     (''username'', JStr ''u''), (''credential'', JStr ''p'')]"

definition hostOk :: Env where
  "hostOk =
     \<lparr>now = 1000, nowIso = ''1970-01-01T00:00:01.000Z'', formatClock = (\<lambda>iso. iso),
      hostErrorMessage = ''host error'',
      isSecureContext = True, hasGetUserMedia = True, getUserMedia = Some [1, 2],
      VITE_ICE_SERVERS_JSON = EnvBlank,
      iceFetch = FetchResponse True \<lparr>iceServers = JArr [turnEntry], ttlSecondsNumber = Num 3600\<rparr>,
      createOffer = Some (SessionDescription ''offer''),
      createAnswer = Some (SessionDescription ''answer''),
      setLocalDescriptionOk = True, setRemoteDescriptionOk = True,
      addIceCandidateOk = (\<lambda>c. c \<noteq> IceCandidate ''bad''),
      channelSendOk = True, dbError = None,
      insertedCallRow = \<lparr>row_id = Some 1, row_conversation_id = Some 7,
                         row_requester_id = Some ''alice'', row_accepted_by = None,
                         row_status = Some Pending\<rparr>\<rparr>"

text \<open>The same host, whose persistence layer refuses every request.\<close>

definition hostDbRefuses :: Env where
  "hostDbRefuses = hostOk\<lparr>dbError := Some ''new row violates row-level security policy''\<rparr>"

text \<open>Call 1 of conversation 7, requested by \<open>bob\<close>, still pending.\<close>

definition callFromBob :: ActiveCall where
  "callFromBob = \<lparr>call_id = 1, conversationId = 7, requesterId = ''bob'',
                   acceptedBy = None, status = Pending\<rparr>"

definition rowOf :: "ActiveCall \<Rightarrow> CallRequestRow" where
  "rowOf c = \<lparr>row_id = Some (call_id c), row_conversation_id = Some (conversationId c),
              row_requester_id = Some (requesterId c), row_accepted_by = acceptedBy c,
              row_status = Some (status c)\<rparr>"

text \<open>User \<open>alice\<close> in conversation 7 after the notification of bob's pending call.\<close>

definition ringing :: App where
  "ringing = handleCallChange hostOk (rowOf callFromBob) (signedIn hostOk ''alice'' 7)"

text \<open>User \<open>alice\<close> with the draft \<open>hello\<close> in conversation 7, and the realtime insert event
  of the message that the persistence layer stores under id 42.\<close>

definition composing :: App where
  "composing = (signedIn hostOk ''alice'' 7)\<lparr>messageDraft := ''hello''\<rparr>"

definition feedHello :: InsertedMessagePayload where
  "feedHello = \<lparr>ins_id = Some 42, ins_conversation_id = Some 7, ins_sender_id = ''alice'',
                 ins_content = ''hello'', ins_created_at = ''T''\<rparr>"

text \<open>Call 2 of conversation 7, requested by \<open>alice\<close>, still pending; \<open>alice\<close> after its
  notification.\<close>

definition callFromAlice :: ActiveCall where
  "callFromAlice = \<lparr>call_id = 2, conversationId = 7, requesterId = ''alice'',
                     acceptedBy = None, status = Pending\<rparr>"

definition requesting :: App where
  "requesting = handleCallChange hostOk (rowOf callFromAlice) (signedIn hostOk ''alice'' 7)"

text \<open>User \<open>alice\<close> after picking up bob's call.\<close>

definition answering :: App where
  "answering = acceptIncomingCall hostOk ringing"

text \<open>The caller's side: bob has accepted call 2, and \<open>alice\<close> has handled the
  notification, which runs the caller handshake; then one candidate from bob arrives.\<close>

definition acceptedByBob :: ActiveCall where
  "acceptedByBob = callFromAlice\<lparr>acceptedBy := Some ''bob'', status := Accepted\<rparr>"

definition calling :: App where
  "calling = handleCallChange hostOk (rowOf acceptedByBob) requesting"

definition iceFromBob :: "string \<Rightarrow> SignalPayload" where
  "iceFromBob c = \<lparr>sig_callId = 2, sig_from = ''bob'', sig_to = Some ''alice'',
                    sig_conversationId = 7, sig_sdp = None,
                    sig_candidate = Some (IceCandidate c)\<rparr>"

definition callingQueued :: App where
  "callingQueued = handleSignal hostOk WebrtcIce (iceFromBob ''c1'') calling"

definition relayServers :: "RTCIceServer list" where
  "relayServers = [\<lparr>urls = UrlString ''turn:relay.example.org:3478'',
                     username = Some ''u'', credential = Some ''p''\<rparr>]"

definition callerPeer :: RTCPeerConnection where
  "callerPeer = \<lparr>pc_iceServers = relayServers, pc_call = acceptedByBob,
                  pc_myUserId = ''alice'', pc_tracks = [1, 2], remoteDescription = None,
                  localDescription = Some (SessionDescription ''offer''),
                  addIceCandidateCalls = [], addedCandidates = []\<rparr>"

text \<open>A host whose relay-credential request fails; and one whose build-time variable
  configures the TURN server besides.\<close>

definition hostFetchFails :: Env where
  "hostFetchFails = hostOk\<lparr>iceFetch := FetchThrows\<rparr>"

definition hostEnvTurn :: Env where
  "hostEnvTurn = hostOk\<lparr>VITE_ICE_SERVERS_JSON := EnvParsed (JArr [turnEntry]),
                         iceFetch := FetchThrows\<rparr>"

text \<open>The caller's side once bob's answer has arrived and the session reports
  \<open>connected\<close>.\<close>

definition answerFromBob :: SignalPayload where
  "answerFromBob = \<lparr>sig_callId = 2, sig_from = ''bob'', sig_to = Some ''alice'',
                     sig_conversationId = 7,
                     sig_sdp = Some (SessionDescription ''answer''), sig_candidate = None\<rparr>"

text \<open>The callee's side of call 1: a candidate and the offer that bob sends to \<open>alice\<close>,
  and \<open>alice\<close> after she has picked up and handled the candidate, then the offer.\<close>

definition bobsIce :: "string \<Rightarrow> SignalPayload" where
  "bobsIce c = (iceFromBob c)\<lparr>sig_callId := 1\<rparr>"

definition offerFromBob :: SignalPayload where
  "offerFromBob = \<lparr>sig_callId = 1, sig_from = ''bob'', sig_to = Some ''alice'',
                    sig_conversationId = 7,
                    sig_sdp = Some (SessionDescription ''offer''), sig_candidate = None\<rparr>"

definition answered :: App where
  "answered = handleSignal hostOk WebrtcOffer offerFromBob
                (handleSignal hostOk WebrtcIce (bobsIce ''c1'') answering)"

text \<open>Three candidates that bob sends to \<open>alice\<close> for call 2; the host refuses the second.\<close>

definition threeCandidates :: "SignalPayload list" where
  "threeCandidates = [iceFromBob ''c1'', iceFromBob ''bad'', iceFromBob ''c3'']"

text \<open>User \<open>alice\<close>, whose own request for conversation 7 is pending, after the
  notification of bob's pending call for the same conversation.\<close>

definition glare :: App where
  "glare = handleCallChange hostOk (rowOf callFromBob) requesting"

text \<open>The notification that bob has cancelled call 1, and the envelope with which bob
  tells \<open>alice\<close> that he has accepted call 2.\<close>

definition cancelledByBob :: CallRequestRow where
  "cancelledByBob = rowOf (callFromBob\<lparr>status := Cancelled\<rparr>)"

definition acceptedSignal :: SignalPayload where
  "acceptedSignal = \<lparr>sig_callId = 2, sig_from = ''bob'', sig_to = Some ''alice'',
                      sig_conversationId = 7, sig_sdp = None, sig_candidate = None\<rparr>"
section \<open>Properties of the message list\<close>

lemma sendMessage_begin_composing:
  "sendMessage_begin hostOk composing =
     Some (- 1000, composing\<lparr>messageDraft := [],
        messages := [\<lparr>msg_id = - 1000, sender = Me, senderName = ''You'', content = ''hello'',
                      timestamp = ''1970-01-01T00:00:01.000Z''\<rparr>],
        composerBusy := True, chatError := None,
        dbOps := [InsertMessage 7 ''alice'' ''hello'']\<rparr>)"
  by (simp add: sendMessage_begin_def composing_def signedIn_def initialApp_def hostOk_def
      trim_def isSpace1_def isSpace2_def isSpace3_def Let_def)

lemma sendMessage_begin_messages:
  assumes "sendMessage_begin env s = Some (optimisticId, s1)"
  shows "\<exists>m. msg_id m = optimisticId \<and> messages s1 = messages s @ [m]"
    and "currentUser s1 = currentUser s" and "activeConversationId s1 = activeConversationId s"
    and "currentUser s \<noteq> None" and "activeConversationId s \<noteq> None"
proof -
  obtain me conv where u: "currentUser s = Some me" and c: "activeConversationId s = Some conv"
    using assms by (cases "currentUser s"; cases "activeConversationId s")
      (simp_all add: sendMessage_begin_def Let_def)
  have g: "\<not> (trim (messageDraft s) = [] \<or> composerBusy s)"
    using assms u c by (auto simp: sendMessage_begin_def Let_def split: if_splits)
  have e: "s1 = s\<lparr>messageDraft := [],
                 messages := messages s @
                   [\<lparr>msg_id = optimisticId, sender = Me, senderName = ''You'',
                     content = trim (messageDraft s), timestamp = formatClock env (nowIso env)\<rparr>],
                 composerBusy := True,
                 chatError := None,
                 dbOps := dbOps s @ [InsertMessage conv me (trim (messageDraft s))]\<rparr>"
    using assms u c g by (auto simp: sendMessage_begin_def Let_def)
  show "\<exists>m. msg_id m = optimisticId \<and> messages s1 = messages s @ [m]"
    by (simp add: e)
  show "currentUser s1 = currentUser s" "activeConversationId s1 = activeConversationId s"
    by (simp_all add: e)
  show "currentUser s \<noteq> None" "activeConversationId s \<noteq> None" using u c by simp_all
qed

lemma count_renamed:
  assumes "\<forall>m \<in> set ms. msg_id m \<noteq> i \<and> msg_id m \<noteq> oid"
  shows "filter (\<lambda>m. msg_id m = i)
           (map (\<lambda>m. if msg_id m = oid then m\<lparr>msg_id := i, timestamp := t\<rparr> else m) ms) = []"
  using assms by (induction ms) auto

text \<open>When the feed event comes after the persistence answer, the id is already in the
  list and the event adds nothing.\<close>

lemma feed_after_response_one_entry:
  assumes b: "sendMessage_begin env s = Some (optimisticId, s1)"
    and n: "\<forall>m \<in> set (messages s). msg_id m \<noteq> i \<and> msg_id m \<noteq> optimisticId"
    and i: "ins_id inserted = Some i"
  shows "entriesWithId i (messagesInsert env inserted
            (sendMessage_end env optimisticId (Inr (Some i, createdAt)) s1)) = 1"
proof -
  let ?s2 = "sendMessage_end env optimisticId (Inr (Some i, createdAt)) s1"
  let ?f = "\<lambda>m. if msg_id m = optimisticId
                then m\<lparr>msg_id := i, timestamp := formatClock env createdAt\<rparr> else m"
  obtain m where m: "msg_id m = optimisticId" "messages s1 = messages s @ [m]"
    using sendMessage_begin_messages(1) [OF b] by blast
  have ms2: "messages ?s2 = map ?f (messages s) @ [m\<lparr>msg_id := i, timestamp := formatClock env createdAt\<rparr>]"
    by (simp add: sendMessage_end_def m)
  have one: "entriesWithId i ?s2 = 1"
    unfolding entriesWithId_def ms2 using count_renamed [OF n] by simp
  have ex: "list_ex (\<lambda>m. msg_id m = i) (messages ?s2)"
    unfolding ms2 by (simp add: list_ex_iff)
  have "messages (messagesInsert env inserted ?s2) = messages ?s2"
    using ex i by (simp add: messagesInsert_def Let_def split: option.splits)
  then show ?thesis using one by (simp add: entriesWithId_def)
qed

text \<open>
  C4. The claim: for every interleaving of the optimistic send, the persistence answer
  and the feed event for the same id, the list ends with exactly one entry of that id.
  When the feed event is handled between the optimistic append and the persistence
  answer, the feed handler finds no entry with id 42 and appends one, and the answer
  then renames the placeholder to 42 without looking for that id: the list holds two
  entries with id 42.
\<close>

theorem sendMessage_feed_before_response_duplicates:
  "(case sendMessage_begin hostOk composing of
      None \<Rightarrow> 0
    | Some (optimisticId, s1) \<Rightarrow>
        entriesWithId 42
          (sendMessage_end hostOk optimisticId (Inr (Some 42, ''T''))
             (messagesInsert hostOk feedHello s1))) = 2"
  by (simp add: sendMessage_begin_composing)
     (simp add: sendMessage_end_def messagesInsert_def entriesWithId_def feedHello_def
        composing_def signedIn_def initialApp_def hostOk_def)

section \<open>The example states, computed\<close>

lemma ringing_eq:
  "ringing = (signedIn hostOk ''alice'' 7)\<lparr>incomingCall := Some callFromBob,
                                             callStatus := StRinging\<rparr>"
  by (simp add: ringing_def handleCallChange_def normalizeCall_def rowOf_def callFromBob_def
      signedIn_def initialApp_def)

lemma ringing_fields:
  "currentUser ringing = Some ''alice''" "activeConversationId ringing = Some 7"
  "callStatus ringing = StRinging" "incomingCall ringing = Some callFromBob"
  "activeCall ringing = None" "pendingOutgoingCall ringing = None" "dbOps ringing = []"
  "peerConnectionRef ringing = None" "pendingRemoteCandidatesRef ringing = []"
  "callSignalChannelRef ringing"
  by (simp_all add: ringing_eq signedIn_def initialApp_def)

lemma hostOk_fields:
  "dbError hostOk = None" "isSecureContext hostOk" "hasGetUserMedia hostOk" "channelSendOk hostOk"
  by (simp_all add: hostOk_def)

lemma requesting_eq:
  "requesting = (signedIn hostOk ''alice'' 7)\<lparr>pendingOutgoingCall := Some callFromAlice,
                                                callStatus := StRequesting\<rparr>"
  by (simp add: requesting_def handleCallChange_def normalizeCall_def rowOf_def callFromAlice_def
      signedIn_def initialApp_def)

lemma requesting_fields:
  "currentUser requesting = Some ''alice''" "activeConversationId requesting = Some 7"
  "callStatus requesting = StRequesting" "incomingCall requesting = None"
  "activeCall requesting = None" "pendingOutgoingCall requesting = Some callFromAlice"
  "dbOps requesting = []" "peerConnectionRef requesting = None"
  by (simp_all add: requesting_eq signedIn_def initialApp_def)

text \<open>
  C9. The claim: after 12 seconds in \<open>connecting\<close> the call state becomes \<open>error\<close>. The
  timer's callback sets \<open>callError\<close> only; the status stays \<open>connecting\<close>.
\<close>

lemma answering_status: "callStatus answering = StConnecting"
  by (simp add: answering_def acceptIncomingCall_def ringing_fields hostOk_fields Let_def
      sendCallSignal_def)

lemma sanitize_turnEntry: "sanitizeIceServers (JArr [turnEntry]) = relayServers"
  by (simp add: sanitizeIceServers_def List.map_filter_def normalizeIceServer_def turnEntry_def
      getField_def relayServers_def)

lemma resolve_hostOk:
  "dynamicIceCacheRef s = None \<Longrightarrow>
   resolveIceServers hostOk s =
     (relayServers, s\<lparr>dynamicIceCacheRef := Some (relayServers, 3541000),
                       currentIceServers := relayServers, iceConfigMode := ModeDynamic\<rparr>)"
  by (simp add: resolveIceServers_def cacheFresh_def hostOk_def sanitize_turnEntry
      ttlSecondsOf_def Let_def relayServers_def)

lemma calling_eq:
  "calling = (signedIn hostOk ''alice'' 7)
     \<lparr>callStatus := StConnecting, activeCall := Some acceptedByBob,
      localStream := Some [1, 2], iceConfigMode := ModeDynamic,
      currentIceServers := relayServers, peerConnectionRef := Some callerPeer,
      handshakeStartedForCallRef := Some 2,
      dynamicIceCacheRef := Some (relayServers, 3541000),
      sentSignals := [(WebrtcOffer,
        \<lparr>sig_callId = 2, sig_from = ''alice'', sig_to = Some ''bob'', sig_conversationId = 7,
         sig_sdp = Some (SessionDescription ''offer''), sig_candidate = None\<rparr>)]\<rparr>"
proof -
  have n: "normalizeCall (rowOf acceptedByBob) = Some acceptedByBob"
    by (simp add: normalizeCall_def rowOf_def acceptedByBob_def callFromAlice_def)
  have a: "status acceptedByBob = Accepted" "requesterId acceptedByBob = ''alice''"
    "acceptedBy acceptedByBob = Some ''bob''" "call_id acceptedByBob = 2"
    "conversationId acceptedByBob = 7"
    by (simp_all add: acceptedByBob_def callFromAlice_def)
  have h: "createOffer hostOk = Some (SessionDescription ''offer'')" "setLocalDescriptionOk hostOk"
    "getUserMedia hostOk = Some [1, 2]" "channelSendOk hostOk"
    "assertMediaContext hostOk = None"
    by (simp_all add: hostOk_def assertMediaContext_def)
  show ?thesis
    unfolding calling_def handleCallChange_def requesting_eq
    by (simp add: n a h signedIn_def initialApp_def truthy_def startCallerHandshake_def
        ensureLocalStream_def resolve_hostOk createPeerConnection_def setLocalDescription_def
        sendCallSignal_def callerPeer_def Let_def)
qed

lemma calling_fields:
  "currentUser calling = Some ''alice''" "callStatus calling = StConnecting"
  "activeCall calling = Some acceptedByBob" "incomingCall calling = None"
  "pendingOutgoingCall calling = None" "localStream calling = Some [1, 2]"
  "remoteStream calling = None"
  "peerConnectionRef calling = Some callerPeer" "pendingRemoteCandidatesRef calling = []"
  "handshakeStartedForCallRef calling = Some 2" "closedPeers calling = []"
  "stoppedTracks calling = []" "dbOps calling = []" "callSignalChannelRef calling"
  by (simp_all add: calling_eq signedIn_def initialApp_def)

lemma callingQueued_eq:
  "callingQueued = calling\<lparr>pendingRemoteCandidatesRef := [IceCandidate ''c1'']\<rparr>"
  by (simp add: callingQueued_def handleSignal_def onWebrtcIce_def forSomeoneElse_def truthy_def
      iceFromBob_def calling_fields callerPeer_def)

lemma callingQueued_fields:
  "currentUser callingQueued = Some ''alice''" "callStatus callingQueued = StConnecting"
  "activeCall callingQueued = Some acceptedByBob" "incomingCall callingQueued = None"
  "pendingOutgoingCall callingQueued = None" "localStream callingQueued = Some [1, 2]"
  "remoteStream callingQueued = None"
  "peerConnectionRef callingQueued = Some callerPeer"
  "pendingRemoteCandidatesRef callingQueued = [IceCandidate ''c1'']"
  "handshakeStartedForCallRef callingQueued = Some 2" "closedPeers callingQueued = []"
  "stoppedTracks callingQueued = []" "dbOps callingQueued = []" "callSignalChannelRef callingQueued"
  by (simp_all add: callingQueued_eq calling_fields)




lemma answering_fields:
  "currentUser answering = Some ''alice''" "peerConnectionRef answering = None"
  "pendingRemoteCandidatesRef answering = []" "incomingCall answering = None"
  "pendingOutgoingCall answering = None" "localStream answering = None"
  "activeCall answering = Some (callFromBob\<lparr>status := Accepted, acceptedBy := Some ''alice''\<rparr>)"
  "dynamicIceCacheRef answering = None" "closedPeers answering = []"
  "callSignalChannelRef answering"
  by (simp_all add: answering_def acceptIncomingCall_def ringing_fields hostOk_fields Let_def
      sendCallSignal_def ringing_eq signedIn_def initialApp_def)

subsection \<open>The status updates issued\<close>

lemma sendCallSignal_dbOps:
  "sendCallSignal env ev payload s = Some s' \<Longrightarrow> dbOps s' = dbOps s"
  by (auto simp: sendCallSignal_def split: if_splits)

lemma resetCallMedia_dbOps: "dbOps (resetCallMedia s) = dbOps s"
  by (simp add: resetCallMedia_def)

lemma endCallTeardown_dbOps: "dbOps (endCallTeardown s) = dbOps s"
  by (simp add: endCallTeardown_def clearCallSlots_def resetCallMedia_dbOps)

lemma callFailed_dbOps: "dbOps (callFailed m s) = dbOps s"
  by (simp add: callFailed_def)

lemma endCall_dbOps:
  assumes "currentUser s = Some me" and "currentCall s = Some c"
  shows "dbOps (endCall env s) = dbOps s @ [UpdateCallRequest (call_id c) (nextStatus me c) None]"
proof -
  let ?s1 = "s\<lparr>dbOps := dbOps s @ [UpdateCallRequest (call_id c) (nextStatus me c) None]\<rparr>"
  let ?t = "if me = requesterId c then acceptedBy c else Some (requesterId c)"
  let ?p = "\<lparr>sig_callId = call_id c, sig_from = me, sig_to = ?t,
             sig_conversationId = conversationId c, sig_sdp = None, sig_candidate = None\<rparr>"
  show ?thesis
  proof (cases "dbError env")
    case (Some message)
    then show ?thesis using assms by (simp add: endCall_def Let_def callFailed_dbOps)
  next
    case None
    show ?thesis
    proof (cases "truthy ?t")
      case False
      then show ?thesis using assms None
        by (simp add: endCall_def Let_def endCallTeardown_dbOps)
    next
      case True
      show ?thesis
      proof (cases "sendCallSignal env CallEndedEv ?p ?s1")
        case None
        then show ?thesis using assms \<open>dbError env = None\<close> True
          by (simp add: endCall_def Let_def)
      next
        case (Some s2)
        then show ?thesis using assms \<open>dbError env = None\<close> True sendCallSignal_dbOps [OF Some]
          by (simp add: endCall_def Let_def endCallTeardown_dbOps)
      qed
    qed
  qed
qed

lemma acceptIncomingCall_dbOps:
  assumes "currentUser s = Some me" and "incomingCall s = Some c"
  shows "dbOps (acceptIncomingCall env s) = dbOps s @ [UpdateCallRequest (call_id c) Accepted (Some me)]"
proof (cases "dbError env")
  case (Some message)
  then show ?thesis using assms by (simp add: acceptIncomingCall_def Let_def callFailed_dbOps)
next
  case None
  then show ?thesis using assms
    by (simp add: acceptIncomingCall_def Let_def sendCallSignal_def)
qed

lemma rejectIncomingCall_dbOps:
  assumes "currentUser s = Some me" and "incomingCall s = Some c"
  shows "dbOps (rejectIncomingCall env s) = dbOps s @ [UpdateCallRequest (call_id c) Rejected (Some me)]"
  using assms by (cases "dbError env") (simp_all add: rejectIncomingCall_def Let_def callFailed_dbOps)

section \<open>Properties of the call lifecycle\<close>

text \<open>
  C10. Rejecting an incoming call sends one update of the call's record that carries
  status \<open>rejected\<close> together with \<open>accepted_by\<close> set to the rejecting user, whatever
  the local view of the call holds; when the update succeeds the call leaves the
  incoming slot and never enters the active slot.
\<close>

theorem rejectIncomingCall_writes_accepted_by:
  assumes "incomingCall s = Some c" and "currentUser s = Some me"
  shows "dbOps (rejectIncomingCall env s) =
           dbOps s @ [UpdateCallRequest (call_id c) Rejected (Some me)] \<and>
         (dbError env = None \<longrightarrow>
           incomingCall (rejectIncomingCall env s) = None \<and>
           activeCall (rejectIncomingCall env s) = activeCall s \<and>
           callStatus (rejectIncomingCall env s) = StIdle)"
proof (cases "dbError env")
  case None
  with assms show ?thesis by (simp add: rejectIncomingCall_def Let_def)
next
  case (Some message)
  with assms show ?thesis by (simp add: rejectIncomingCall_def callFailed_def Let_def)
qed

theorem rejectIncomingCall_writes_accepted_by_witness:
  "incomingCall ringing = Some callFromBob \<and> currentUser ringing = Some ''alice'' \<and>
   acceptedBy callFromBob = None \<and> status callFromBob = Pending \<and>
   dbError hostOk = None \<and>
   dbOps (rejectIncomingCall hostOk ringing) = [UpdateCallRequest 1 Rejected (Some ''alice'')] \<and>
   incomingCall (rejectIncomingCall hostOk ringing) = None \<and>
   activeCall (rejectIncomingCall hostOk ringing) = None \<and>
   callStatus (rejectIncomingCall hostOk ringing) = StIdle"
proof -
  have h1: "incomingCall ringing = Some callFromBob" and h2: "currentUser ringing = Some ''alice''"
    and h4: "dbOps ringing = []" and h5: "activeCall ringing = None"
    by (simp_all add: ringing_eq signedIn_def initialApp_def)
  have h3: "dbError hostOk = None" by (simp add: hostOk_def)
  have h6: "call_id callFromBob = 1" "acceptedBy callFromBob = None" "status callFromBob = Pending"
    by (simp_all add: callFromBob_def)
  from rejectIncomingCall_writes_accepted_by [OF h1 h2, of hostOk] h3
  have "dbOps (rejectIncomingCall hostOk ringing) =
          dbOps ringing @ [UpdateCallRequest (call_id callFromBob) Rejected (Some ''alice'')] \<and>
        incomingCall (rejectIncomingCall hostOk ringing) = None \<and>
        activeCall (rejectIncomingCall hostOk ringing) = activeCall ringing \<and>
        callStatus (rejectIncomingCall hostOk ringing) = StIdle"
    by blast
  then show ?thesis
    unfolding h4 h5 h6 using h1 h2 h3 h6 by simp
qed

lemma ringing_button:
  "callForActiveConversation ringing = Some callFromBob"
  "callButtonClick hostOk ringing = endCall hostOk ringing"
  by (simp_all add: callButtonClick_def callForActiveConversation_def inOpenConversation_def
      ringing_fields callFromBob_def)

text \<open>
  The updates that the three operations issue, for every state and host: accepting
  sends \<open>accepted\<close> and rejecting sends \<open>rejected\<close> for the incoming call, each with
  \<open>accepted_by\<close> set to the local user; ending sends, for the first call among the
  active, the pending outgoing and the incoming one, \<open>cancelled\<close> when its local view is
  pending and the local user is its requester, and \<open>ended\<close> otherwise.
\<close>

lemma status_updates_issued:
  assumes "currentUser s = Some me"
  shows "(incomingCall s = Some c \<longrightarrow>
            dbOps (acceptIncomingCall env s) =
              dbOps s @ [UpdateCallRequest (call_id c) Accepted (Some me)] \<and>
            dbOps (rejectIncomingCall env s) =
              dbOps s @ [UpdateCallRequest (call_id c) Rejected (Some me)]) \<and>
         (currentCall s = Some c \<longrightarrow>
            dbOps (endCall env s) =
              dbOps s @ [UpdateCallRequest (call_id c)
                           (if status c = Pending \<and> requesterId c = me then Cancelled else Ended)
                           None])"
  using acceptIncomingCall_dbOps [OF assms] rejectIncomingCall_dbOps [OF assms]
    endCall_dbOps [OF assms]
  by (simp add: nextStatus_def)

text \<open>For an accepted call and for the local user's own pending request, the status that
  \<open>endCall\<close> sends is a transition of the graph.\<close>

lemma nextStatus_in_graph:
  "status c = Accepted \<Longrightarrow> nextStatus me c = Ended \<and> specTransition (status c) (nextStatus me c)"
  "status c = Pending \<Longrightarrow> requesterId c = me \<Longrightarrow>
     nextStatus me c = Cancelled \<and> specTransition (status c) (nextStatus me c)"
  by (simp_all add: nextStatus_def specTransition_def)

text \<open>
  Both update policies of the table refuse the update that \<open>endCall\<close> sends for a
  pending call of another requester: the new row names the sender neither as requester
  nor in \<open>accepted_by\<close>. The update that \<open>rejectIncomingCall\<close> sends passes.
\<close>

lemma pending_to_ended_refused_by_policies:
  "\<not> call_requests_update_requester_or_acceptor ''alice'' callFromBob
       (applyUpdate (UpdateCallRequest 1 Ended None) callFromBob)"
  "\<not> call_requests_update_member isMember ''alice'' callFromBob
       (applyUpdate (UpdateCallRequest 1 Ended None) callFromBob)"
  "call_requests_update_requester_or_acceptor ''alice'' callFromBob
       (applyUpdate (UpdateCallRequest 1 Rejected (Some ''alice'')) callFromBob)"
  by (simp_all add: call_requests_update_requester_or_acceptor_def
      call_requests_update_member_def applyUpdate_def callFromBob_def)

text \<open>
  C3. The claim: every status update that the controller issues follows the graph
  pending to accepted, rejected or cancelled and accepted to ended, and never takes a
  pending request to ended. While bob's pending call rings for \<open>alice\<close> in the open
  conversation, the header button invokes \<open>endCall\<close>, which sends \<open>ended\<close> for the
  pending request; \<open>rejectIncomingCall\<close>, in the same state, sends \<open>rejected\<close>.
\<close>

theorem endCall_pending_incoming_issues_ended:
  "currentUser ringing = Some ''alice'' \<and> incomingCall ringing = Some callFromBob \<and>
   status callFromBob = Pending \<and> requesterId callFromBob = ''bob'' \<and>
   callButtonClick hostOk ringing = endCall hostOk ringing \<and>
   dbOps (endCall hostOk ringing) = [UpdateCallRequest 1 Ended None] \<and>
   \<not> specTransition Pending Ended \<and>
   dbOps (rejectIncomingCall hostOk ringing) = [UpdateCallRequest 1 Rejected (Some ''alice'')]"
proof -
  have u: "currentUser ringing = Some ''alice''" by (simp add: ringing_fields)
  have c: "currentCall ringing = Some callFromBob"
    by (simp add: currentCall_def ringing_fields)
  have i: "incomingCall ringing = Some callFromBob" by (simp add: ringing_fields)
  have e: "dbOps (endCall hostOk ringing) = [UpdateCallRequest 1 Ended None]"
    using endCall_dbOps [OF u c, of hostOk]
    by (simp add: ringing_fields nextStatus_def callFromBob_def)
  have r: "dbOps (rejectIncomingCall hostOk ringing) =
             [UpdateCallRequest 1 Rejected (Some ''alice'')]"
    using rejectIncomingCall_dbOps [OF u i, of hostOk]
    by (simp add: ringing_fields callFromBob_def)
  show ?thesis
    using u i e r ringing_button(2)
    by (simp add: callFromBob_def specTransition_def)
qed

subsection \<open>Requesting a call\<close>



text \<open>When no call is shown for the open conversation and the status is none of the
  three of the guard, the click reaches the persistence layer.\<close>

lemma requestCall_inserts:
  assumes "currentUser s = Some me" and "activeConversationId s = Some conv"
    and "callStatus s \<noteq> StConnecting" "callStatus s \<noteq> StInCall" "callStatus s \<noteq> StRequesting"
    and "assertMediaContext env = None"
  shows "dbOps (requestCall env s) = dbOps s @ [InsertCallRequest conv me Pending]"
proof (cases "dbError env")
  case (Some message)
  then show ?thesis using assms by (simp add: requestCall_def Let_def callFailed_def)
next
  case None
  then show ?thesis using assms
    by (cases "normalizeCall (insertedCallRow env)") (simp_all add: requestCall_def Let_def callFailed_def)
qed

lemma callButtonClick_requests_when_free:
  "callForActiveConversation (signedIn hostOk ''alice'' 7) = None"
  "dbOps (callButtonClick hostOk (signedIn hostOk ''alice'' 7)) =
     [InsertCallRequest 7 ''alice'' Pending]"
proof -
  let ?s = "signedIn hostOk ''alice'' 7"
  have f: "currentUser ?s = Some ''alice''" "activeConversationId ?s = Some 7"
    "callStatus ?s = StIdle" "dbOps ?s = []" "incomingCall ?s = None"
    "pendingOutgoingCall ?s = None" "activeCall ?s = None"
    by (simp_all add: signedIn_def initialApp_def)
  show n: "callForActiveConversation ?s = None"
    by (simp add: callForActiveConversation_def inOpenConversation_def f)
  have m: "assertMediaContext hostOk = None"
    by (simp add: assertMediaContext_def hostOk_fields)
  have "callButtonClick hostOk ?s = requestCall hostOk ?s"
    by (simp add: callButtonClick_def n f)
  then show "dbOps (callButtonClick hostOk ?s) = [InsertCallRequest 7 ''alice'' Pending]"
    using requestCall_inserts [of ?s "''alice''" 7 hostOk] f m by simp
qed





subsection \<open>The connecting timer\<close>

theorem connecting_timeout_keeps_status:
  "callStatus answering = StConnecting \<and>
   callStatus (afterStatusHeldFor 12000 answering) \<noteq> StError \<and>
   callStatus (afterStatusHeldFor 12000 answering) = StConnecting"
  by (simp add: answering_status afterStatusHeldFor_def connectingDeadline_def
      connectingTimeoutFired_def)

text \<open>
  C9, as the code has it. Holding a status never changes \<open>callStatus\<close>. Once the status
  has been \<open>connecting\<close> for 12000 ms the diagnostic message is stored in \<open>callError\<close>
  and nothing else changes; before that, or in any other status, nothing changes at all.
\<close>

theorem connecting_timeout_sets_diagnostic:
  "callStatus (afterStatusHeldFor elapsed s) = callStatus s \<and>
   (callStatus s = StConnecting \<and> 12000 \<le> elapsed \<longrightarrow>
      afterStatusHeldFor elapsed s = s\<lparr>callError := Some stillConnecting\<rparr>) \<and>
   (callStatus s \<noteq> StConnecting \<or> elapsed < 12000 \<longrightarrow> afterStatusHeldFor elapsed s = s)"
  by (auto simp: afterStatusHeldFor_def connectingDeadline_def connectingTimeoutFired_def)

theorem connecting_timeout_sets_diagnostic_witness:
  "callStatus answering = StConnecting \<and> (12000::int) \<le> 12000 \<and>
   callStatus (afterStatusHeldFor 12000 answering) = StConnecting \<and>
   afterStatusHeldFor 12000 answering = answering\<lparr>callError := Some stillConnecting\<rparr> \<and>
   (11999::int) < 12000 \<and> afterStatusHeldFor 11999 answering = answering"
  using connecting_timeout_sets_diagnostic [of 12000 answering]
    connecting_timeout_sets_diagnostic [of 11999 answering]
  by (simp add: answering_status)

subsection \<open>Teardown\<close>

lemma resetCallMedia_fields:
  "peerConnectionRef (resetCallMedia s) = None"
  "pendingRemoteCandidatesRef (resetCallMedia s) = []"
  "handshakeStartedForCallRef (resetCallMedia s) = None"
  "localStream (resetCallMedia s) = None"
  "remoteStream (resetCallMedia s) = None"
  "isMicMuted (resetCallMedia s) = False"
  "closedPeers (resetCallMedia s) =
     closedPeers s @ (case peerConnectionRef s of None \<Rightarrow> [] | Some p \<Rightarrow> [p])"
  "stoppedTracks (resetCallMedia s) =
     stoppedTracks s @ streamTracks (localStream s) @ streamTracks (remoteStream s)"
  by (simp_all add: resetCallMedia_def)

lemma resetCallMedia_idem: "resetCallMedia (resetCallMedia s) = resetCallMedia s"
  by (simp add: resetCallMedia_def streamTracks_def)

lemma endCallTeardown_fields:
  "peerConnectionRef (endCallTeardown s) = None"
  "pendingRemoteCandidatesRef (endCallTeardown s) = []"
  "handshakeStartedForCallRef (endCallTeardown s) = None"
  "localStream (endCallTeardown s) = None"
  "remoteStream (endCallTeardown s) = None"
  "closedPeers (endCallTeardown s) =
     closedPeers s @ (case peerConnectionRef s of None \<Rightarrow> [] | Some p \<Rightarrow> [p])"
  "stoppedTracks (endCallTeardown s) =
     stoppedTracks s @ streamTracks (localStream s) @ streamTracks (remoteStream s)"
  "activeCall (endCallTeardown s) = None" "incomingCall (endCallTeardown s) = None"
  "pendingOutgoingCall (endCallTeardown s) = None" "callStatus (endCallTeardown s) = StIdle"
  "currentUser (endCallTeardown s) = currentUser s"
  by (simp_all add: endCallTeardown_def clearCallSlots_def resetCallMedia_def)

text \<open>When the update succeeds and the signal is sent without an exception, \<open>endCall\<close>
  is the teardown of a state that differs from the start in the two logs only.\<close>

lemma endCall_success:
  assumes "currentUser s = Some me" and "currentCall s = Some c" and "dbError env = None"
    and "channelSendOk env \<or> \<not> callSignalChannelRef s"
  shows "\<exists>ops sigs. endCall env s = endCallTeardown (s\<lparr>dbOps := ops, sentSignals := sigs\<rparr>)"
proof -
  let ?s1 = "s\<lparr>dbOps := dbOps s @ [UpdateCallRequest (call_id c) (nextStatus me c) None]\<rparr>"
  let ?t = "if me = requesterId c then acceptedBy c else Some (requesterId c)"
  let ?p = "\<lparr>sig_callId = call_id c, sig_from = me, sig_to = ?t,
             sig_conversationId = conversationId c, sig_sdp = None, sig_candidate = None\<rparr>"
  have s1: "?s1 = s\<lparr>dbOps := dbOps ?s1, sentSignals := sentSignals s\<rparr>" by simp
  show ?thesis
  proof (cases "truthy ?t")
    case False
    then have "endCall env s = endCallTeardown ?s1"
      using assms by (simp add: endCall_def Let_def)
    then show ?thesis using s1 by metis
  next
    case True
    show ?thesis
    proof (cases "callSignalChannelRef s")
      case False
      then have "sendCallSignal env CallEndedEv ?p ?s1 = Some ?s1"
        by (simp add: sendCallSignal_def)
      then have "endCall env s = endCallTeardown ?s1"
        using assms True by (simp add: endCall_def Let_def)
      then show ?thesis using s1 by metis
    next
      case ch: True
      then have ok: "channelSendOk env" using assms by simp
      let ?s2 = "s\<lparr>dbOps := dbOps ?s1, sentSignals := sentSignals s @ [(CallEndedEv, ?p)]\<rparr>"
      have "sendCallSignal env CallEndedEv ?p ?s1 = Some ?s2"
        using ch ok by (simp add: sendCallSignal_def)
      then have "endCall env s = endCallTeardown ?s2"
        using assms True by (simp add: endCall_def Let_def)
      then show ?thesis by blast
    qed
  qed
qed

lemma endCall_no_call: "currentCall s = None \<Longrightarrow> endCall env s = s"
  by (cases "currentUser s") (simp_all add: endCall_def)

lemma endCall_refused:
  assumes "currentUser s = Some me" and "currentCall s = Some c" and "dbError env = Some message"
  shows "endCall env s =
           s\<lparr>dbOps := dbOps s @ [UpdateCallRequest (call_id c) (nextStatus me c) None],
             callStatus := StError, callError := Some message\<rparr>"
  using assms by (simp add: endCall_def Let_def callFailed_def)

lemma currentCall_teardown: "currentCall (endCallTeardown s) = None"
  by (simp add: currentCall_def endCallTeardown_fields)

text \<open>
  C7. The claim: ending a call always performs the full teardown, from every state.
  \<open>endCall\<close> returns before the teardown when the persistence layer refuses the status
  update: the session stays open, the tracks keep running, the queued candidate and
  the handshake guard stay.
\<close>

theorem endCall_refused_keeps_session:
  "currentCall callingQueued = Some acceptedByBob \<and>
   dbError hostDbRefuses \<noteq> None \<and>
   peerConnectionRef (endCall hostDbRefuses callingQueued) = Some callerPeer \<and>
   closedPeers (endCall hostDbRefuses callingQueued) = [] \<and>
   localStream (endCall hostDbRefuses callingQueued) = Some [1, 2] \<and>
   stoppedTracks (endCall hostDbRefuses callingQueued) = [] \<and>
   pendingRemoteCandidatesRef (endCall hostDbRefuses callingQueued) = [IceCandidate ''c1''] \<and>
   handshakeStartedForCallRef (endCall hostDbRefuses callingQueued) = Some 2"
proof -
  have c: "currentCall callingQueued = Some acceptedByBob" "currentUser callingQueued = Some ''alice''"
    by (simp_all add: currentCall_def callingQueued_fields)
  have d: "dbError hostDbRefuses = Some ''new row violates row-level security policy''"
    by (simp add: hostDbRefuses_def)
  show ?thesis
    unfolding endCall_refused [OF c(2) c(1) d]
    by (simp add: c d callingQueued_fields)
qed

text \<open>
  C7, as the code has it. The teardown \<open>resetCallMedia\<close> is total: from every state,
  with or without a session, it closes the session if there is one, stops the tracks of
  the local and remote streams, empties the candidate queue and clears the handshake
  guard; a second teardown changes nothing. \<open>endCall\<close> with no call in any slot returns
  the state unchanged. With a call in a slot, a successful status update and a signal
  sent without an exception, \<open>endCall\<close> performs that teardown, clears the three slots,
  returns to \<open>idle\<close>, and a second \<open>endCall\<close> changes nothing. When the update is
  refused, \<open>endCall\<close> records the error and leaves session, media and queue as they were.
\<close>

theorem teardown_full_and_idempotent:
  "peerConnectionRef (resetCallMedia s) = None \<and>
   pendingRemoteCandidatesRef (resetCallMedia s) = [] \<and>
   handshakeStartedForCallRef (resetCallMedia s) = None \<and>
   localStream (resetCallMedia s) = None \<and> remoteStream (resetCallMedia s) = None \<and>
   closedPeers (resetCallMedia s) =
     closedPeers s @ (case peerConnectionRef s of None \<Rightarrow> [] | Some p \<Rightarrow> [p]) \<and>
   stoppedTracks (resetCallMedia s) =
     stoppedTracks s @ streamTracks (localStream s) @ streamTracks (remoteStream s) \<and>
   resetCallMedia (resetCallMedia s) = resetCallMedia s \<and>
   (currentCall s = None \<longrightarrow> endCall env s = s) \<and>
   (currentUser s = Some me \<and> currentCall s = Some c \<and> dbError env = None \<and>
    (channelSendOk env \<or> \<not> callSignalChannelRef s) \<longrightarrow>
      peerConnectionRef (endCall env s) = None \<and>
      pendingRemoteCandidatesRef (endCall env s) = [] \<and>
      handshakeStartedForCallRef (endCall env s) = None \<and>
      localStream (endCall env s) = None \<and> remoteStream (endCall env s) = None \<and>
      closedPeers (endCall env s) =
        closedPeers s @ (case peerConnectionRef s of None \<Rightarrow> [] | Some p \<Rightarrow> [p]) \<and>
      stoppedTracks (endCall env s) =
        stoppedTracks s @ streamTracks (localStream s) @ streamTracks (remoteStream s) \<and>
      activeCall (endCall env s) = None \<and> incomingCall (endCall env s) = None \<and>
      pendingOutgoingCall (endCall env s) = None \<and> callStatus (endCall env s) = StIdle \<and>
      endCall env (endCall env s) = endCall env s) \<and>
   (currentUser s = Some me \<and> currentCall s = Some c \<and> dbError env = Some message \<longrightarrow>
      endCall env s =
        s\<lparr>dbOps := dbOps s @ [UpdateCallRequest (call_id c) (nextStatus me c) None],
          callStatus := StError, callError := Some message\<rparr>)"
proof -
  have ok: "peerConnectionRef (endCall env s) = None \<and>
      pendingRemoteCandidatesRef (endCall env s) = [] \<and>
      handshakeStartedForCallRef (endCall env s) = None \<and>
      localStream (endCall env s) = None \<and> remoteStream (endCall env s) = None \<and>
      closedPeers (endCall env s) =
        closedPeers s @ (case peerConnectionRef s of None \<Rightarrow> [] | Some p \<Rightarrow> [p]) \<and>
      stoppedTracks (endCall env s) =
        stoppedTracks s @ streamTracks (localStream s) @ streamTracks (remoteStream s) \<and>
      activeCall (endCall env s) = None \<and> incomingCall (endCall env s) = None \<and>
      pendingOutgoingCall (endCall env s) = None \<and> callStatus (endCall env s) = StIdle \<and>
      endCall env (endCall env s) = endCall env s"
    if h: "currentUser s = Some me \<and> currentCall s = Some c \<and> dbError env = None \<and>
       (channelSendOk env \<or> \<not> callSignalChannelRef s)"
  proof -
    have "\<exists>ops sigs. endCall env s = endCallTeardown (s\<lparr>dbOps := ops, sentSignals := sigs\<rparr>)"
      using h by (intro endCall_success [of s me c env]) simp_all
    then obtain ops sigs
      where e: "endCall env s = endCallTeardown (s\<lparr>dbOps := ops, sentSignals := sigs\<rparr>)"
      by (elim exE)
    have "endCall env (endCall env s) = endCall env s"
      unfolding e by (rule endCall_no_call) (rule currentCall_teardown)
    then show ?thesis by (simp add: e endCallTeardown_fields)
  qed
  show ?thesis
    using ok endCall_no_call [of s env] endCall_refused [of s me c env message]
    by (simp add: resetCallMedia_fields resetCallMedia_idem)
qed

theorem teardown_full_and_idempotent_witness:
  "currentUser callingQueued = Some ''alice'' \<and> currentCall callingQueued = Some acceptedByBob \<and>
   dbError hostOk = None \<and> channelSendOk hostOk \<and>
   peerConnectionRef callingQueued = Some callerPeer \<and>
   peerConnectionRef (endCall hostOk callingQueued) = None \<and>
   closedPeers (endCall hostOk callingQueued) = [callerPeer] \<and>
   localStream (endCall hostOk callingQueued) = None \<and>
   stoppedTracks (endCall hostOk callingQueued) = [1, 2] \<and>
   pendingRemoteCandidatesRef (endCall hostOk callingQueued) = [] \<and>
   handshakeStartedForCallRef (endCall hostOk callingQueued) = None \<and>
   callStatus (endCall hostOk callingQueued) = StIdle \<and>
   endCall hostOk (endCall hostOk callingQueued) = endCall hostOk callingQueued \<and>
   currentCall (signedIn hostOk ''alice'' 7) = None \<and>
   peerConnectionRef (signedIn hostOk ''alice'' 7) = None \<and>
   endCall hostOk (signedIn hostOk ''alice'' 7) = signedIn hostOk ''alice'' 7 \<and>
   closedPeers (resetCallMedia (signedIn hostOk ''alice'' 7)) = [] \<and>
   resetCallMedia (resetCallMedia (signedIn hostOk ''alice'' 7)) =
     resetCallMedia (signedIn hostOk ''alice'' 7)"
proof -
  have c: "currentCall callingQueued = Some acceptedByBob" "currentUser callingQueued = Some ''alice''"
    by (simp_all add: currentCall_def callingQueued_fields)
  have n: "currentCall (signedIn hostOk ''alice'' 7) = None"
    "peerConnectionRef (signedIn hostOk ''alice'' 7) = None"
    "closedPeers (signedIn hostOk ''alice'' 7) = []"
    by (simp_all add: currentCall_def signedIn_def initialApp_def)
  show ?thesis
    using teardown_full_and_idempotent [of callingQueued hostOk "''alice''" acceptedByBob "[]"]
      teardown_full_and_idempotent [of "signedIn hostOk ''alice'' 7" hostOk "''alice''" acceptedByBob "[]"]
      c n
    by (simp add: hostOk_fields callingQueued_fields streamTracks_def)
qed

section \<open>Properties of the relay-server resolver\<close>

lemma resolve_cached:
  assumes "dynamicIceCacheRef s = Some (servers, expiresAt)" and "expiresAt > now env + 15000"
  shows "resolveIceServers env s = (servers, s)"
  using assms by (simp add: resolveIceServers_def cacheFresh_def)

lemma resolve_stale:
  assumes "\<not> cacheFresh env s"
  shows "resolveIceServers env s =
     (case iceFetch env of
        FetchThrows \<Rightarrow> resolveFallback env s
      | FetchResponse ok payload \<Rightarrow>
          if \<not> ok \<or> sanitizeIceServers (iceServers payload) = [] then resolveFallback env s
          else (sanitizeIceServers (iceServers payload),
                s\<lparr>dynamicIceCacheRef :=
                     Some (sanitizeIceServers (iceServers payload),
                           now env + max 30 (ttlSecondsOf (ttlSecondsNumber payload) - 60) * 1000),
                  currentIceServers := sanitizeIceServers (iceServers payload),
                  iceConfigMode := ModeDynamic\<rparr>))"
  using assms by (simp add: resolveIceServers_def Let_def split: FetchOutcome.splits)

lemma sanitize_nonempty:
  "sanitizeIceServers (JArr entries) \<noteq> [] \<longleftrightarrow> (\<exists>e \<in> set entries. normalizeIceServer e \<noteq> None)"
  by (auto simp: sanitizeIceServers_def List.map_filter_def filter_empty_conv)

lemma defaultIceServers_no_turn: "\<not> hasTurnServer defaultIceServers"
  by (simp add: hasTurnServer_def defaultIceServers_def urlList_def isTurnUrl_def foldCase_def)

lemma relayServers_turn: "hasTurnServer relayServers"
  by (simp add: hasTurnServer_def relayServers_def urlList_def isTurnUrl_def foldCase_def)

text \<open>
  C8. The claim: every failure of the fetch returns the static STUN-only list and leaves
  the configuration without a relay. The list returned on failure is \<open>ICE_SERVERS\<close>,
  which \<open>parseIceServers\<close> reads from the build-time variable: when that variable
  configures a TURN server, the fallback holds that TURN server.
\<close>

theorem resolve_fallback_env_configured_turn:
  "dynamicIceCacheRef (signedIn hostEnvTurn ''alice'' 7) = None \<and>
   iceFetch hostEnvTurn = FetchThrows \<and>
   fst (resolveIceServers hostEnvTurn (signedIn hostEnvTurn ''alice'' 7)) = relayServers \<and>
   relayServers \<noteq> defaultIceServers \<and> hasTurnServer relayServers \<and>
   hasTurnServer (currentIceServers (snd (resolveIceServers hostEnvTurn (signedIn hostEnvTurn ''alice'' 7))))"
proof -
  have i: "ICE_SERVERS hostEnvTurn = relayServers"
    by (simp add: ICE_SERVERS_def hostEnvTurn_def parseIceServers_def sanitize_turnEntry
        relayServers_def)
  have f: "iceFetch hostEnvTurn = FetchThrows" by (simp add: hostEnvTurn_def)
  have c: "dynamicIceCacheRef (signedIn hostEnvTurn ''alice'' 7) = None"
    by (simp add: signedIn_def initialApp_def)
  then have "\<not> cacheFresh hostEnvTurn (signedIn hostEnvTurn ''alice'' 7)"
    by (simp add: cacheFresh_def)
  then have "resolveIceServers hostEnvTurn (signedIn hostEnvTurn ''alice'' 7) =
      resolveFallback hostEnvTurn (signedIn hostEnvTurn ''alice'' 7)"
    by (simp add: resolve_stale f)
  moreover have "relayServers \<noteq> defaultIceServers"
    by (simp add: relayServers_def defaultIceServers_def)
  ultimately show ?thesis using relayServers_turn
    by (simp add: resolveFallback_def i f c)
qed

text \<open>
  C8, as the code has it. A cached configuration whose expiry is more than 15000 ms
  after now is returned without a fetch and without any state change. Otherwise an
  \<open>ok\<close> response with at least one well-formed entry is returned, stored as the current
  servers in mode \<open>dynamic\<close>, and cached until now plus \<open>max 30 (ttl - 60)\<close> seconds,
  where ttl is the floor of a finite positive \<open>ttlSeconds\<close> and 600 otherwise. Every
  other outcome (an exception, a response that is not \<open>ok\<close>, no well-formed entry)
  returns \<open>ICE_SERVERS\<close>, stores it as the current servers in mode \<open>env\<close> and leaves
  the cache as it was. \<open>ICE_SERVERS\<close> is the STUN-only default when the build-time
  variable is blank, unparsable or without a well-formed entry, and the entries of that
  variable otherwise.
\<close>

theorem resolveIceServers_cases:
  "(dynamicIceCacheRef s = Some (servers, expiresAt) \<and> expiresAt > now env + 15000 \<longrightarrow>
      resolveIceServers env s = (servers, s)) \<and>
   (cacheFresh env s \<longleftrightarrow>
      (\<exists>cachedServers e. dynamicIceCacheRef s = Some (cachedServers, e) \<and> e > now env + 15000)) \<and>
   (\<not> cacheFresh env s \<and> iceFetch env = FetchResponse True payload \<and>
    sanitizeIceServers (iceServers payload) \<noteq> [] \<longrightarrow>
      resolveIceServers env s =
        (sanitizeIceServers (iceServers payload),
         s\<lparr>dynamicIceCacheRef :=
              Some (sanitizeIceServers (iceServers payload),
                    now env + max 30 (ttlSecondsOf (ttlSecondsNumber payload) - 60) * 1000),
           currentIceServers := sanitizeIceServers (iceServers payload),
           iceConfigMode := ModeDynamic\<rparr>)) \<and>
   (\<not> cacheFresh env s \<and>
    (iceFetch env = FetchThrows \<or> iceFetch env = FetchResponse False payload \<or>
     (iceFetch env = FetchResponse True payload \<and> sanitizeIceServers (iceServers payload) = [])) \<longrightarrow>
      resolveIceServers env s =
        (ICE_SERVERS env, s\<lparr>currentIceServers := ICE_SERVERS env, iceConfigMode := ModeEnv\<rparr>)) \<and>
   ttlSecondsOf (Num r) = (if 0 < r then \<lfloor>r\<rfloor> else 600) \<and>
   ttlSecondsOf NaN = 600 \<and> ttlSecondsOf PosInfinity = 600 \<and> ttlSecondsOf NegInfinity = 600 \<and>
   (sanitizeIceServers (JArr entries) \<noteq> [] \<longleftrightarrow>
      (\<exists>e \<in> set entries. normalizeIceServer e \<noteq> None)) \<and>
   (VITE_ICE_SERVERS_JSON env = EnvBlank \<or> VITE_ICE_SERVERS_JSON env = EnvUnparsable \<or>
    (\<exists>parsed. VITE_ICE_SERVERS_JSON env = EnvParsed parsed \<and> sanitizeIceServers parsed = []) \<longrightarrow>
      ICE_SERVERS env = defaultIceServers) \<and>
   (VITE_ICE_SERVERS_JSON env = EnvParsed parsed \<and> sanitizeIceServers parsed \<noteq> [] \<longrightarrow>
      ICE_SERVERS env = sanitizeIceServers parsed) \<and>
   \<not> hasTurnServer defaultIceServers"
proof -
  have fresh: "cacheFresh env s \<longleftrightarrow>
      (\<exists>cachedServers e. dynamicIceCacheRef s = Some (cachedServers, e) \<and> e > now env + 15000)"
    by (cases "dynamicIceCacheRef s") (auto simp: cacheFresh_def)
  have ice: "(VITE_ICE_SERVERS_JSON env = EnvBlank \<or> VITE_ICE_SERVERS_JSON env = EnvUnparsable \<or>
    (\<exists>parsed. VITE_ICE_SERVERS_JSON env = EnvParsed parsed \<and> sanitizeIceServers parsed = []) \<longrightarrow>
      ICE_SERVERS env = defaultIceServers) \<and>
   (VITE_ICE_SERVERS_JSON env = EnvParsed parsed \<and> sanitizeIceServers parsed \<noteq> [] \<longrightarrow>
      ICE_SERVERS env = sanitizeIceServers parsed)"
    by (auto simp: ICE_SERVERS_def parseIceServers_def Let_def)
  have ttl: "ttlSecondsOf (Num r) = (if 0 < r then \<lfloor>r\<rfloor> else 600)"
    "ttlSecondsOf NaN = 600" "ttlSecondsOf PosInfinity = 600" "ttlSecondsOf NegInfinity = 600"
    by (simp_all add: ttlSecondsOf_def)
  have stale1: "\<not> cacheFresh env s \<and> iceFetch env = FetchResponse True payload \<and>
    sanitizeIceServers (iceServers payload) \<noteq> [] \<longrightarrow>
      resolveIceServers env s =
        (sanitizeIceServers (iceServers payload),
         s\<lparr>dynamicIceCacheRef :=
              Some (sanitizeIceServers (iceServers payload),
                    now env + max 30 (ttlSecondsOf (ttlSecondsNumber payload) - 60) * 1000),
           currentIceServers := sanitizeIceServers (iceServers payload),
           iceConfigMode := ModeDynamic\<rparr>)"
    by (simp add: resolve_stale)
  have stale2: "\<not> cacheFresh env s \<and>
    (iceFetch env = FetchThrows \<or> iceFetch env = FetchResponse False payload \<or>
     (iceFetch env = FetchResponse True payload \<and> sanitizeIceServers (iceServers payload) = [])) \<longrightarrow>
      resolveIceServers env s =
        (ICE_SERVERS env, s\<lparr>currentIceServers := ICE_SERVERS env, iceConfigMode := ModeEnv\<rparr>)"
    by (auto simp: resolve_stale resolveFallback_def)
  show ?thesis
    using resolve_cached [of s servers expiresAt env] fresh ice ttl stale1 stale2
      sanitize_nonempty [of entries] defaultIceServers_no_turn
    by blast
qed


theorem resolveIceServers_cases_witness:
  "dynamicIceCacheRef calling = Some (relayServers, 3541000) \<and>
   3541000 > now hostOk + 15000 \<and>
   resolveIceServers hostOk calling = (relayServers, calling) \<and>
   \<not> cacheFresh hostOk (signedIn hostOk ''alice'' 7) \<and>
   iceFetch hostOk =
     FetchResponse True \<lparr>iceServers = JArr [turnEntry], ttlSecondsNumber = Num 3600\<rparr> \<and>
   sanitizeIceServers (JArr [turnEntry]) = relayServers \<and> relayServers \<noteq> [] \<and>
   ttlSecondsOf (Num 3600) = 3600 \<and>
   resolveIceServers hostOk (signedIn hostOk ''alice'' 7) =
     (relayServers,
      (signedIn hostOk ''alice'' 7)\<lparr>dynamicIceCacheRef := Some (relayServers, 3541000),
         currentIceServers := relayServers, iceConfigMode := ModeDynamic\<rparr>) \<and>
   \<not> cacheFresh hostFetchFails (signedIn hostFetchFails ''alice'' 7) \<and>
   iceFetch hostFetchFails = FetchThrows \<and> VITE_ICE_SERVERS_JSON hostFetchFails = EnvBlank \<and>
   resolveIceServers hostFetchFails (signedIn hostFetchFails ''alice'' 7) =
     (defaultIceServers,
      (signedIn hostFetchFails ''alice'' 7)\<lparr>currentIceServers := defaultIceServers,
         iceConfigMode := ModeEnv\<rparr>)"
proof -
  let ?payload = "\<lparr>iceServers = JArr [turnEntry], ttlSecondsNumber = Num 3600\<rparr>"
  have a: "dynamicIceCacheRef calling = Some (relayServers, 3541000)"
    by (simp add: calling_eq signedIn_def initialApp_def)
  have b: "now hostOk = 1000" "iceFetch hostOk = FetchResponse True ?payload"
    "iceFetch hostFetchFails = FetchThrows" "VITE_ICE_SERVERS_JSON hostFetchFails = EnvBlank"
    "now hostFetchFails = 1000"
    by (simp_all add: hostOk_def hostFetchFails_def)
  have c: "\<not> cacheFresh hostOk (signedIn hostOk ''alice'' 7)"
    "\<not> cacheFresh hostFetchFails (signedIn hostFetchFails ''alice'' 7)"
    by (simp_all add: cacheFresh_def signedIn_def initialApp_def)
  have d: "relayServers \<noteq> []" by (simp add: relayServers_def)
  have e: "iceServers ?payload = JArr [turnEntry]" "ttlSecondsNumber ?payload = Num 3600"
    by simp_all
  have f: "\<lfloor>3600::rat\<rfloor> = 3600" by simp
  show ?thesis
    using resolveIceServers_cases [of calling relayServers 3541000 hostOk ?payload 3600 "[turnEntry]" "JNull"]
      resolveIceServers_cases [of "signedIn hostOk ''alice'' 7" relayServers 3541000 hostOk ?payload 3600 "[turnEntry]" "JNull"]
      resolveIceServers_cases [of "signedIn hostFetchFails ''alice'' 7" relayServers 3541000 hostFetchFails ?payload 3600 "[turnEntry]" "JNull"]
      a c d
    unfolding e b sanitize_turnEntry
    by (simp add: f)
qed

section \<open>Properties of the candidate queue\<close>

lemma addQueued_eq:
  "addQueued env queued peer =
     peer\<lparr>addIceCandidateCalls := addIceCandidateCalls peer @ queued,
          addedCandidates := addedCandidates peer @ filter (addIceCandidateOk env) queued\<rparr>"
  by (induction queued arbitrary: peer) (simp_all add: addIceCandidate_def)

lemma flush_fields:
  assumes "peerConnectionRef s = Some peer" and "remoteDescription peer \<noteq> None"
  shows "pendingRemoteCandidatesRef (flushPendingRemoteCandidates env s) = []"
    and "peerConnectionRef (flushPendingRemoteCandidates env s) =
           Some (peer\<lparr>addIceCandidateCalls :=
                        addIceCandidateCalls peer @ pendingRemoteCandidatesRef s,
                      addedCandidates :=
                        addedCandidates peer @
                        filter (addIceCandidateOk env) (pendingRemoteCandidatesRef s)\<rparr>)"
proof -
  obtain rd where rd: "remoteDescription peer = Some rd"
    using assms(2) by (cases "remoteDescription peer") simp_all
  note a = assms(1) rd
  show "pendingRemoteCandidatesRef (flushPendingRemoteCandidates env s) = []"
  proof (cases "pendingRemoteCandidatesRef s = []")
    case True
    then show ?thesis using a by (simp add: flushPendingRemoteCandidates_def)
  next
    case False
    then show ?thesis using a by (simp add: flushPendingRemoteCandidates_def Let_def)
  qed
  show "peerConnectionRef (flushPendingRemoteCandidates env s) =
           Some (peer\<lparr>addIceCandidateCalls :=
                        addIceCandidateCalls peer @ pendingRemoteCandidatesRef s,
                      addedCandidates :=
                        addedCandidates peer @
                        filter (addIceCandidateOk env) (pendingRemoteCandidatesRef s)\<rparr>)"
  proof (cases "pendingRemoteCandidatesRef s = []")
    case True
    then show ?thesis using a by (simp add: flushPendingRemoteCandidates_def)
  next
    case False
    then show ?thesis using a
      by (simp add: flushPendingRemoteCandidates_def Let_def addQueued_eq)
  qed
qed

lemma onWebrtcIce_no_session:
  assumes "peerConnectionRef s = None"
  shows "handleSignal env WebrtcIce signal s = s"
  using assms
  by (cases "currentUser s"; cases "sig_candidate signal")
     (simp_all add: handleSignal_def onWebrtcIce_def)

lemma onWebrtcIce_queues:
  assumes "currentUser s = Some me" and "peerConnectionRef s = Some peer"
    and "remoteDescription peer = None"
    and "\<not> forSomeoneElse me signal" and "sig_candidate signal = Some c"
  shows "handleSignal env WebrtcIce signal s =
           s\<lparr>pendingRemoteCandidatesRef := pendingRemoteCandidatesRef s @ [c]\<rparr>"
  using assms by (simp add: handleSignal_def onWebrtcIce_def)

lemma receiveAll_queues:
  assumes "currentUser s = Some me" and "peerConnectionRef s = Some peer"
    and "remoteDescription peer = None"
    and "\<forall>signal \<in> set signals. \<not> forSomeoneElse me signal \<and> sig_candidate signal \<noteq> None"
  shows "receiveAll env WebrtcIce signals s =
           s\<lparr>pendingRemoteCandidatesRef :=
               pendingRemoteCandidatesRef s @ List.map_filter sig_candidate signals\<rparr>"
  using assms
proof (induction signals arbitrary: s)
  case Nil
  then show ?case by (simp add: receiveAll_def List.map_filter_def)
next
  case (Cons signal signals)
  from Cons.prems(4) obtain c where c: "sig_candidate signal = Some c"
    and f: "\<not> forSomeoneElse me signal" by auto
  let ?s1 = "s\<lparr>pendingRemoteCandidatesRef := pendingRemoteCandidatesRef s @ [c]\<rparr>"
  have step: "handleSignal env WebrtcIce signal s = ?s1"
    using onWebrtcIce_queues [OF Cons.prems(1-3) f c] .
  have "receiveAll env WebrtcIce signals ?s1 =
          ?s1\<lparr>pendingRemoteCandidatesRef :=
               pendingRemoteCandidatesRef ?s1 @ List.map_filter sig_candidate signals\<rparr>"
    using Cons.prems by (intro Cons.IH) simp_all
  then show ?case
    using step c by (simp add: receiveAll_def List.map_filter_def)
qed

lemma onWebrtcAnswer_flushes:
  assumes "currentUser s = Some me" and "peerConnectionRef s = Some peer"
    and "\<not> forSomeoneElse me answer" and "sig_sdp answer = Some sdp"
    and "setRemoteDescriptionOk env"
  shows "pendingRemoteCandidatesRef (handleSignal env WebrtcAnswer answer s) = []"
    and "peerConnectionRef (handleSignal env WebrtcAnswer answer s) =
           Some (peer\<lparr>remoteDescription := Some sdp,
                      addIceCandidateCalls :=
                        addIceCandidateCalls peer @ pendingRemoteCandidatesRef s,
                      addedCandidates :=
                        addedCandidates peer @
                        filter (addIceCandidateOk env) (pendingRemoteCandidatesRef s)\<rparr>)"
proof -
  let ?p = "peer\<lparr>remoteDescription := Some sdp\<rparr>"
  let ?s1 = "s\<lparr>peerConnectionRef := Some ?p\<rparr>"
  have h: "handleSignal env WebrtcAnswer answer s = flushPendingRemoteCandidates env ?s1"
    using assms by (simp add: handleSignal_def onWebrtcAnswer_def)
  have p: "peerConnectionRef ?s1 = Some ?p" "remoteDescription ?p \<noteq> None" by simp_all
  show "pendingRemoteCandidatesRef (handleSignal env WebrtcAnswer answer s) = []"
    unfolding h using flush_fields(1) [OF p] .
  show "peerConnectionRef (handleSignal env WebrtcAnswer answer s) =
           Some (peer\<lparr>remoteDescription := Some sdp,
                      addIceCandidateCalls :=
                        addIceCandidateCalls peer @ pendingRemoteCandidatesRef s,
                      addedCandidates :=
                        addedCandidates peer @
                        filter (addIceCandidateOk env) (pendingRemoteCandidatesRef s)\<rparr>)"
    unfolding h using flush_fields(2) [OF p, of env] by simp
qed

lemma answered_session:
  "peerConnectionRef answered =
     Some \<lparr>pc_iceServers = relayServers,
           pc_call = callFromBob\<lparr>status := Accepted, acceptedBy := Some ''alice''\<rparr>,
           pc_myUserId = ''alice'', pc_tracks = [1, 2],
           remoteDescription = Some (SessionDescription ''offer''),
           localDescription = Some (SessionDescription ''answer''),
           addIceCandidateCalls = [], addedCandidates = []\<rparr>"
proof -
  have i: "handleSignal hostOk WebrtcIce (bobsIce ''c1'') answering = answering"
    by (rule onWebrtcIce_no_session) (simp add: answering_fields)
  have h: "createAnswer hostOk = Some (SessionDescription ''answer'')" "setLocalDescriptionOk hostOk"
    "setRemoteDescriptionOk hostOk" "getUserMedia hostOk = Some [1, 2]" "channelSendOk hostOk"
    "assertMediaContext hostOk = None"
    by (simp_all add: hostOk_def assertMediaContext_def)
  show ?thesis
    unfolding answered_def i
    by (simp add: handleSignal_def onWebrtcOffer_def forSomeoneElse_def truthy_def
        offerFromBob_def answering_fields callFromBob_def answerOffer_def ensureLocalStream_def
        h resolve_hostOk createPeerConnection_def flushPendingRemoteCandidates_def
        setLocalDescription_def sendCallSignal_def Let_def)
qed

text \<open>
  C6. The claim: every candidate received before a remote description is set is queued
  and applied once the remote description is set. After picking up, and until the
  offer has been handled, \<open>alice\<close> has no session: the handler returns at once, the
  candidate is not queued, and the session that the offer then creates never gets it.
\<close>

theorem candidate_without_session_dropped:
  "peerConnectionRef answering = None \<and>
   handleSignal hostOk WebrtcIce (bobsIce ''c1'') answering = answering \<and>
   pendingRemoteCandidatesRef (handleSignal hostOk WebrtcIce (bobsIce ''c1'') answering) = [] \<and>
   map_option remoteDescription (peerConnectionRef answered) =
     Some (Some (SessionDescription ''offer'')) \<and>
   map_option addIceCandidateCalls (peerConnectionRef answered) = Some [] \<and>
   pendingRemoteCandidatesRef answered = []"
proof -
  have i: "handleSignal hostOk WebrtcIce (bobsIce ''c1'') answering = answering"
    by (rule onWebrtcIce_no_session) (simp add: answering_fields)
  have p: "\<exists>peer. peerConnectionRef answered = Some peer \<and> remoteDescription peer \<noteq> None"
    by (simp add: answered_session)
  have h: "createAnswer hostOk = Some (SessionDescription ''answer'')" "setLocalDescriptionOk hostOk"
    "setRemoteDescriptionOk hostOk" "getUserMedia hostOk = Some [1, 2]" "channelSendOk hostOk"
    "assertMediaContext hostOk = None"
    by (simp_all add: hostOk_def assertMediaContext_def)
  have q: "pendingRemoteCandidatesRef answered = []"
    unfolding answered_def i
    by (simp add: handleSignal_def onWebrtcOffer_def forSomeoneElse_def truthy_def
        offerFromBob_def answering_fields callFromBob_def answerOffer_def ensureLocalStream_def
        h resolve_hostOk createPeerConnection_def flushPendingRemoteCandidates_def
        setLocalDescription_def sendCallSignal_def Let_def)
  show ?thesis
    by (simp add: i q answering_fields answered_session)
qed

text \<open>
  C6, as the code has it. A candidate received while no session exists is discarded.
  While a session exists and has no remote description, the candidates of the
  envelopes addressed to the local user or to nobody are appended to the queue in
  their order of arrival, and the session is not touched. When the answer handler then
  sets the remote description, and in any flush on a session with a remote
  description, every queued candidate is handed to \<open>addIceCandidate\<close> in that order,
  those that the host takes are added, a refusal does not stop the ones after it, and
  the queue is emptied.
\<close>

theorem candidates_queued_then_flushed_in_order:
  "(peerConnectionRef s = None \<longrightarrow> handleSignal env WebrtcIce signal s = s) \<and>
   (currentUser s = Some me \<and> peerConnectionRef s = Some peer \<and>
    remoteDescription peer = None \<and>
    (\<forall>signal \<in> set signals. \<not> forSomeoneElse me signal \<and> sig_candidate signal \<noteq> None) \<longrightarrow>
      receiveAll env WebrtcIce signals s =
        s\<lparr>pendingRemoteCandidatesRef :=
            pendingRemoteCandidatesRef s @ List.map_filter sig_candidate signals\<rparr>) \<and>
   (currentUser s = Some me \<and> peerConnectionRef s = Some peer \<and>
    \<not> forSomeoneElse me answer \<and> sig_sdp answer = Some sdp \<and> setRemoteDescriptionOk env \<longrightarrow>
      pendingRemoteCandidatesRef (handleSignal env WebrtcAnswer answer s) = [] \<and>
      peerConnectionRef (handleSignal env WebrtcAnswer answer s) =
        Some (peer\<lparr>remoteDescription := Some sdp,
                   addIceCandidateCalls :=
                     addIceCandidateCalls peer @ pendingRemoteCandidatesRef s,
                   addedCandidates :=
                     addedCandidates peer @
                     filter (addIceCandidateOk env) (pendingRemoteCandidatesRef s)\<rparr>)) \<and>
   (peerConnectionRef s = Some peer \<and> remoteDescription peer \<noteq> None \<longrightarrow>
      pendingRemoteCandidatesRef (flushPendingRemoteCandidates env s) = [] \<and>
      peerConnectionRef (flushPendingRemoteCandidates env s) =
        Some (peer\<lparr>addIceCandidateCalls :=
                     addIceCandidateCalls peer @ pendingRemoteCandidatesRef s,
                   addedCandidates :=
                     addedCandidates peer @
                     filter (addIceCandidateOk env) (pendingRemoteCandidatesRef s)\<rparr>))"
  using onWebrtcIce_no_session [of s env signal]
    receiveAll_queues [of s me peer signals env]
    onWebrtcAnswer_flushes [of s me peer answer sdp env]
    flush_fields [of s peer env]
  by blast

theorem candidates_queued_then_flushed_in_order_witness:
  "peerConnectionRef answering = None \<and>
   handleSignal hostOk WebrtcIce (bobsIce ''c1'') answering = answering \<and>
   currentUser calling = Some ''alice'' \<and> peerConnectionRef calling = Some callerPeer \<and>
   remoteDescription callerPeer = None \<and>
   list_all (\<lambda>signal. \<not> forSomeoneElse ''alice'' signal \<and> sig_candidate signal \<noteq> None)
     threeCandidates \<and>
   receiveAll hostOk WebrtcIce threeCandidates calling =
     calling\<lparr>pendingRemoteCandidatesRef :=
               [IceCandidate ''c1'', IceCandidate ''bad'', IceCandidate ''c3'']\<rparr> \<and>
   \<not> forSomeoneElse ''alice'' answerFromBob \<and>
   sig_sdp answerFromBob = Some (SessionDescription ''answer'') \<and>
   setRemoteDescriptionOk hostOk \<and>
   pendingRemoteCandidatesRef
     (handleSignal hostOk WebrtcAnswer answerFromBob
        (receiveAll hostOk WebrtcIce threeCandidates calling)) = [] \<and>
   peerConnectionRef
     (handleSignal hostOk WebrtcAnswer answerFromBob
        (receiveAll hostOk WebrtcIce threeCandidates calling)) =
     Some (callerPeer\<lparr>remoteDescription := Some (SessionDescription ''answer''),
             addIceCandidateCalls :=
               [IceCandidate ''c1'', IceCandidate ''bad'', IceCandidate ''c3''],
             addedCandidates := [IceCandidate ''c1'', IceCandidate ''c3'']\<rparr>)"
proof -
  let ?queued = "calling\<lparr>pendingRemoteCandidatesRef :=
                   [IceCandidate ''c1'', IceCandidate ''bad'', IceCandidate ''c3'']\<rparr>"
  have n: "peerConnectionRef answering = None" by (simp add: answering_fields)
  have c: "currentUser calling = Some ''alice''" "peerConnectionRef calling = Some callerPeer"
    "pendingRemoteCandidatesRef calling = []"
    by (simp_all add: calling_fields)
  have r: "remoteDescription callerPeer = None" "addIceCandidateCalls callerPeer = []"
    "addedCandidates callerPeer = []"
    by (simp_all add: callerPeer_def)
  have t: "\<forall>signal \<in> set threeCandidates.
             \<not> forSomeoneElse ''alice'' signal \<and> sig_candidate signal \<noteq> None"
    by (simp add: threeCandidates_def iceFromBob_def forSomeoneElse_def)
  have m: "List.map_filter sig_candidate threeCandidates =
             [IceCandidate ''c1'', IceCandidate ''bad'', IceCandidate ''c3'']"
    by (simp add: threeCandidates_def iceFromBob_def List.map_filter_def)
  have a: "\<not> forSomeoneElse ''alice'' answerFromBob"
    "sig_sdp answerFromBob = Some (SessionDescription ''answer'')" "setRemoteDescriptionOk hostOk"
    by (simp_all add: answerFromBob_def forSomeoneElse_def hostOk_def)
  have f: "filter (addIceCandidateOk hostOk)
             [IceCandidate ''c1'', IceCandidate ''bad'', IceCandidate ''c3''] =
           [IceCandidate ''c1'', IceCandidate ''c3'']"
    by (simp add: hostOk_def)
  have q: "receiveAll hostOk WebrtcIce threeCandidates calling = ?queued"
    using candidates_queued_then_flushed_in_order
            [of calling hostOk "bobsIce ''c1''" "''alice''" callerPeer threeCandidates
                answerFromBob "SessionDescription ''answer''"]
      c r t
    by (simp add: m)
  have q': "currentUser ?queued = Some ''alice''" "peerConnectionRef ?queued = Some callerPeer"
    "pendingRemoteCandidatesRef ?queued =
       [IceCandidate ''c1'', IceCandidate ''bad'', IceCandidate ''c3'']"
    by (simp_all add: c)
  have w: "pendingRemoteCandidatesRef (handleSignal hostOk WebrtcAnswer answerFromBob ?queued) = [] \<and>
      peerConnectionRef (handleSignal hostOk WebrtcAnswer answerFromBob ?queued) =
        Some (callerPeer\<lparr>remoteDescription := Some (SessionDescription ''answer''),
                addIceCandidateCalls :=
                  [IceCandidate ''c1'', IceCandidate ''bad'', IceCandidate ''c3''],
                addedCandidates := [IceCandidate ''c1'', IceCandidate ''c3'']\<rparr>)"
    using candidates_queued_then_flushed_in_order
            [of ?queued hostOk "bobsIce ''c1''" "''alice''" callerPeer "[]"
                answerFromBob "SessionDescription ''answer''"]
      q' a
    unfolding q'(3) f r by simp
  have d: "handleSignal hostOk WebrtcIce (bobsIce ''c1'') answering = answering"
    using candidates_queued_then_flushed_in_order
            [of answering hostOk "bobsIce ''c1''" "''alice''" callerPeer "[]"
                answerFromBob "SessionDescription ''answer''"] n
    by simp
  have l: "list_all (\<lambda>signal. \<not> forSomeoneElse ''alice'' signal \<and> sig_candidate signal \<noteq> None)
             threeCandidates"
    using t by (simp add: list_all_iff)
  show ?thesis
    unfolding q using n d c(1,2) r(1) l a w by simp
qed

section \<open>Properties of the call slots\<close>

lemma atMostOneCall_iff:
  "atMostOneCall s \<longleftrightarrow>
     (activeCall s = None \<and> incomingCall s = None) \<or>
     (activeCall s = None \<and> pendingOutgoingCall s = None) \<or>
     (incomingCall s = None \<and> pendingOutgoingCall s = None)"
  by (cases "activeCall s"; cases "incomingCall s"; cases "pendingOutgoingCall s")
     (simp_all add: atMostOneCall_def slotCalls_def List.map_filter_def)

lemma atMostOneCall_slots: "slots s' = slots s \<Longrightarrow> atMostOneCall s' = atMostOneCall s"
  by (simp add: atMostOneCall_iff slots_def)

text \<open>The steps of the two handshakes leave the slots alone.\<close>

lemma ensureLocalStream_slots:
  "ensureLocalStream env s = Inr (stream, s') \<Longrightarrow> slots s' = slots s"
  by (auto simp: ensureLocalStream_def slots_def split: option.splits)

lemma resolveIceServers_slots: "resolveIceServers env s = (servers, s') \<Longrightarrow> slots s' = slots s"
  by (auto simp: resolveIceServers_def resolveFallback_def slots_def Let_def
      split: option.splits FetchOutcome.splits if_splits)

lemma createPeerConnection_slots:
  "createPeerConnection call stream me servers s = (peer, s') \<Longrightarrow> slots s' = slots s"
  by (auto simp: createPeerConnection_def slots_def Let_def)

lemma sendCallSignal_slots: "sendCallSignal env ev payload s = Some s' \<Longrightarrow> slots s' = slots s"
  by (auto simp: sendCallSignal_def slots_def split: if_splits)

lemma small_steps_slots:
  "slots (handshakeFailed message s) = slots s"
  "slots (answerFailed message s) = slots s"
  "slots (setLocalDescription sdp s) = slots s"
  "slots (s\<lparr>peerConnectionRef := p\<rparr>) = slots s"
  "slots (s\<lparr>callStatus := st\<rparr>) = slots s"
  "slots (s\<lparr>handshakeStartedForCallRef := h, callStatus := st\<rparr>) = slots s"
  "slots (resetCallMedia s) = slots s"
  by (simp_all add: handshakeFailed_def answerFailed_def setLocalDescription_def slots_def
      resetCallMedia_def)

lemma flush_slots: "slots (flushPendingRemoteCandidates env s) = slots s"
  by (cases "peerConnectionRef s")
     (simp_all add: flushPendingRemoteCandidates_def slots_def Let_def)

lemma startCallerHandshake_slots: "slots (startCallerHandshake env call me s) = slots s"
proof -
  let ?s1 = "s\<lparr>handshakeStartedForCallRef := Some (call_id call), callStatus := StConnecting\<rparr>"
  have s1: "slots ?s1 = slots s" by (simp add: slots_def)
  show ?thesis
  proof (cases "\<not> truthy (acceptedBy call) \<or>
      (handshakeStartedForCallRef s = Some (call_id call) \<and> peerConnectionRef s \<noteq> None)")
    case True
    then show ?thesis by (auto simp: startCallerHandshake_def)
  next
    case False
    show ?thesis
    proof (cases "ensureLocalStream env ?s1")
      case (Inl message)
      then show ?thesis using False s1
        by (simp add: startCallerHandshake_def Let_def small_steps_slots)
    next
      case (Inr r)
      obtain stream s2 where r: "r = (stream, s2)" by (cases r)
      obtain servers s3 where s3: "resolveIceServers env s2 = (servers, s3)"
        by (cases "resolveIceServers env s2")
      obtain peer s4 where s4: "createPeerConnection call stream me servers s3 = (peer, s4)"
        by (cases "createPeerConnection call stream me servers s3")
      have e: "slots s4 = slots s"
        using ensureLocalStream_slots [of env ?s1 stream s2] resolveIceServers_slots [OF s3]
          createPeerConnection_slots [OF s4] Inr r s1 by simp
      show ?thesis
      proof (cases "createOffer env")
        case None
        then show ?thesis using False Inr r s3 s4 e
          by (simp add: startCallerHandshake_def Let_def small_steps_slots)
      next
        case (Some offer)
        let ?p = "\<lparr>sig_callId = call_id call, sig_from = me, sig_to = acceptedBy call,
                   sig_conversationId = conversationId call,
                   sig_sdp = Some offer, sig_candidate = None\<rparr>"
        show ?thesis
        proof (cases "sendCallSignal env WebrtcOffer ?p (setLocalDescription offer s4)")
          case None
          then show ?thesis using False Inr r s3 s4 e Some
            by (simp add: startCallerHandshake_def Let_def small_steps_slots)
        next
          case sent: (Some s6)
          then show ?thesis
            using False Inr r s3 s4 e Some sendCallSignal_slots [OF sent]
            by (simp add: startCallerHandshake_def Let_def small_steps_slots)
        qed
      qed
    qed
  qed
qed

lemma answerOffer_slots: "slots (answerOffer env me signal sdp call s) = slots s"
proof -
  let ?s1 = "s\<lparr>callStatus := StConnecting\<rparr>"
  have s1: "slots ?s1 = slots s" by (simp add: slots_def)
  show ?thesis
  proof (cases "ensureLocalStream env ?s1")
    case (Inl message)
    then show ?thesis using s1 by (simp add: answerOffer_def Let_def small_steps_slots)
  next
    case (Inr r)
    obtain stream s2 where r: "r = (stream, s2)" by (cases r)
    obtain servers s3 where s3: "resolveIceServers env s2 = (servers, s3)"
      by (cases "resolveIceServers env s2")
    obtain peer s4 where s4: "createPeerConnection call stream me servers s3 = (peer, s4)"
      by (cases "createPeerConnection call stream me servers s3")
    have e: "slots s4 = slots s"
      using ensureLocalStream_slots [of env ?s1 stream s2] resolveIceServers_slots [OF s3]
        createPeerConnection_slots [OF s4] Inr r s1 by simp
    let ?s5 = "flushPendingRemoteCandidates env
                 (s4\<lparr>peerConnectionRef := Some (peer\<lparr>remoteDescription := Some sdp\<rparr>)\<rparr>)"
    have s5: "slots ?s5 = slots s"
      using e by (simp add: flush_slots small_steps_slots)
    show ?thesis
    proof (cases "setRemoteDescriptionOk env")
      case False
      then show ?thesis using Inr r s3 s4 e
        by (simp add: answerOffer_def Let_def small_steps_slots)
    next
      case True
      show ?thesis
      proof (cases "createAnswer env")
        case None
        then show ?thesis using True Inr r s3 s4 s5
          by (simp add: answerOffer_def Let_def small_steps_slots)
      next
        case (Some answer)
        let ?p = "\<lparr>sig_callId = call_id call, sig_from = me, sig_to = Some (sig_from signal),
                   sig_conversationId = conversationId call,
                   sig_sdp = Some answer, sig_candidate = None\<rparr>"
        show ?thesis
        proof (cases "sendCallSignal env WebrtcAnswer ?p (setLocalDescription answer ?s5)")
          case None
          then show ?thesis using True Inr r s3 s4 s5 Some
            by (simp add: answerOffer_def Let_def small_steps_slots)
        next
          case sent: (Some s7)
          then show ?thesis
            using True Inr r s3 s4 s5 Some sendCallSignal_slots [OF sent]
            by (simp add: answerOffer_def Let_def small_steps_slots)
        qed
      qed
    qed
  qed
qed

lemma handleCallChange_slots:
  assumes u: "currentUser s = Some me" and n: "normalizeCall raw = Some call"
  shows "slots (handleCallChange env raw s) =
     (if status call = Pending then
        (if requesterId call = me then (activeCall s, incomingCall s, Some call)
         else (activeCall s, Some call, pendingOutgoingCall s))
      else if status call = Accepted then
        (if requesterId call = me \<and> truthy (acceptedBy call)
         then (Some call, incomingCall s, None)
         else if acceptedBy call = Some me then (Some call, None, pendingOutgoingCall s)
         else slots s)
      else if isRelated (call_id call) s then (None, None, None)
      else slots s)"
proof (cases "status call = Pending")
  case True
  then show ?thesis using u n by (simp add: handleCallChange_def slots_def)
next
  case np: False
  show ?thesis
  proof (cases "status call = Accepted")
    case True
    let ?s2 = "s\<lparr>activeConversationId := Some (conversationId call),
                  pendingOutgoingCall := None, callError := None, activeCall := Some call\<rparr>"
    have h: "slots (startCallerHandshake env call me ?s2) = (Some call, incomingCall s, None)"
      by (simp add: startCallerHandshake_slots) (simp add: slots_def)
    show ?thesis
    proof (cases "requesterId call = me \<and> truthy (acceptedBy call)")
      case r: True
      show ?thesis
      proof (cases "peerConnectionRef s")
        case None
        then show ?thesis using u n True r h by (simp add: handleCallChange_def Let_def)
      next
        case (Some peer)
        then show ?thesis using u n True r
          by (simp add: handleCallChange_def Let_def slots_def)
      qed
    next
      case False
      then show ?thesis using u n True
        by (auto simp: handleCallChange_def Let_def slots_def)
    qed
  next
    case False
    then show ?thesis using u n np
      by (simp add: handleCallChange_def Let_def slots_def clearCallSlots_def)
  qed
qed

lemma handleSignal_atMostOneCall:
  assumes a: "atMostOneCall s"
  shows "atMostOneCall (handleSignal env ev signal s)"
proof (cases "currentUser s")
  case None
  then show ?thesis using a by (simp add: handleSignal_def)
next
  case (Some me)
  show ?thesis
  proof (cases ev)
    case CallAcceptedEv
    show ?thesis
    proof (cases "pendingOutgoingCall s")
      case None
      then show ?thesis using a Some CallAcceptedEv
        by (simp add: handleSignal_def onCallAccepted_def)
    next
      case p: (Some pending)
      then have e: "activeCall s = None \<or> incomingCall s = None" "incomingCall s = None"
        using a by (auto simp: atMostOneCall_iff)
      show ?thesis
      proof (cases "forSomeoneElse me signal \<or> call_id pending \<noteq> sig_callId signal")
        case True
        then show ?thesis using a Some CallAcceptedEv p
          by (auto simp: handleSignal_def onCallAccepted_def)
      next
        case False
        let ?acc = "pending\<lparr>acceptedBy := Some (sig_from signal), status := Accepted\<rparr>"
        let ?s1 = "s\<lparr>pendingOutgoingCall := None, activeCall := Some ?acc,
                      callStatus := StConnecting,
                      activeConversationId := Some (conversationId ?acc)\<rparr>"
        have "handleSignal env ev signal s = startCallerHandshake env ?acc me ?s1"
          using False Some CallAcceptedEv p
          by (simp add: handleSignal_def onCallAccepted_def Let_def)
        moreover have "atMostOneCall ?s1" using e by (simp add: atMostOneCall_iff)
        ultimately show ?thesis
          using atMostOneCall_slots [OF startCallerHandshake_slots [of env ?acc me ?s1]] by simp
      qed
    qed
  next
    case WebrtcOffer
    show ?thesis
    proof (cases "forSomeoneElse me signal \<or> sig_sdp signal = None")
      case True
      then show ?thesis using a Some WebrtcOffer
        by (auto simp: handleSignal_def onWebrtcOffer_def)
    next
      case False
      then obtain sdp where sdp: "sig_sdp signal = Some sdp" and f: "\<not> forSomeoneElse me signal"
        by auto
      show ?thesis
      proof (cases "case activeCall s of None \<Rightarrow> None
                    | Some c \<Rightarrow> if call_id c = sig_callId signal then Some c else None")
        case (Some call)
        then have "handleSignal env ev signal s = answerOffer env me signal sdp call s"
          using \<open>currentUser s = Some me\<close> WebrtcOffer sdp f
          by (simp add: handleSignal_def onWebrtcOffer_def)
        then show ?thesis
          using a atMostOneCall_slots [OF answerOffer_slots [of env me signal sdp call s]]
          by simp
      next
        case None
        show ?thesis
        proof (cases "incomingCall s")
          case n: None
          then show ?thesis using a Some WebrtcOffer sdp f None
            by (simp add: handleSignal_def onWebrtcOffer_def)
        next
          case i: (Some incoming)
          then have e: "pendingOutgoingCall s = None"
            "activeCall s = None \<or> pendingOutgoingCall s = None"
            using a by (auto simp: atMostOneCall_iff)
          show ?thesis
          proof (cases "call_id incoming = sig_callId signal")
            case False
            then show ?thesis using a Some WebrtcOffer sdp f None i
              by (simp add: handleSignal_def onWebrtcOffer_def)
          next
            case True
            let ?call = "incoming\<lparr>status := Accepted, acceptedBy := Some me\<rparr>"
            let ?s1 = "s\<lparr>incomingCall := None, activeCall := Some ?call\<rparr>"
            have "handleSignal env ev signal s = answerOffer env me signal sdp ?call ?s1"
              using True Some WebrtcOffer sdp f None i
              by (simp add: handleSignal_def onWebrtcOffer_def Let_def)
            moreover have "atMostOneCall ?s1" using e by (simp add: atMostOneCall_iff)
            ultimately show ?thesis
              using atMostOneCall_slots [OF answerOffer_slots [of env me signal sdp ?call ?s1]]
              by simp
          qed
        qed
      qed
    qed
  next
    case WebrtcAnswer
    have "slots (handleSignal env ev signal s) = slots s"
      using Some WebrtcAnswer
      by (cases "sig_sdp signal"; cases "peerConnectionRef s")
         (simp_all add: handleSignal_def onWebrtcAnswer_def flush_slots small_steps_slots)
    then show ?thesis using a atMostOneCall_slots by blast
  next
    case WebrtcIce
    have "slots (handleSignal env ev signal s) = slots s"
      using Some WebrtcIce
      by (cases "sig_candidate signal"; cases "peerConnectionRef s")
         (simp_all add: handleSignal_def onWebrtcIce_def slots_def)
    then show ?thesis using a atMostOneCall_slots by blast
  next
    case CallEndedEv
    then show ?thesis using a Some
      by (simp add: handleSignal_def onCallEnded_def clearCallSlots_def atMostOneCall_iff)
  qed
qed

lemma normalizeCall_rowOf: "requesterId c \<noteq> [] \<Longrightarrow> normalizeCall (rowOf c) = Some c"
  by (simp add: normalizeCall_def rowOf_def)

lemma normalizeCall_status:
  "normalizeCall raw = Some call \<Longrightarrow> row_status raw = Some st \<Longrightarrow> status call = st"
  by (auto simp: normalizeCall_def split: option.splits if_splits)

lemma terminal_atMostOneCall:
  assumes t: "row_status raw = Some Ended \<or> row_status raw = Some Cancelled \<or>
              row_status raw = Some Rejected"
    and a: "atMostOneCall s"
  shows "atMostOneCall (handleCallChange env raw s)"
proof (cases "currentUser s")
  case None
  then show ?thesis using a by (simp add: handleCallChange_def)
next
  case (Some me)
  show ?thesis
  proof (cases "normalizeCall raw")
    case None
    then show ?thesis using a Some by (simp add: handleCallChange_def)
  next
    case c: (Some call)
    have st: "status call \<noteq> Pending" "status call \<noteq> Accepted"
      using t normalizeCall_status [OF c] by auto
    have "slots (handleCallChange env raw s) =
            (if isRelated (call_id call) s then (None, None, None) else slots s)"
      using handleCallChange_slots [OF Some c, of env] st by simp
    then show ?thesis using a by (auto simp: atMostOneCall_iff slots_def split: if_splits)
  qed
qed

lemma glare_slots: "slots glare = (None, Some callFromBob, Some callFromAlice)"
proof -
  have n: "normalizeCall (rowOf callFromBob) = Some callFromBob"
    by (rule normalizeCall_rowOf) (simp add: callFromBob_def)
  have u: "currentUser requesting = Some ''alice''" by (simp add: requesting_fields)
  show ?thesis
    unfolding glare_def handleCallChange_slots [OF u n]
    by (simp add: callFromBob_def requesting_fields)
qed

text \<open>
  C1. The claim: after every handler at most one of the three slots is non-null per
  conversation, a handler that fills one slot clearing the other two. The handler of
  a pending notification fills its slot and clears nothing: \<open>alice\<close>, whose own request
  for conversation 7 is pending, is notified of bob's pending call for conversation 7
  and holds both.
\<close>

theorem pending_notifications_fill_two_slots:
  "glare = handleCallChange hostOk (rowOf callFromBob)
             (handleCallChange hostOk (rowOf callFromAlice) (signedIn hostOk ''alice'' 7)) \<and>
   atMostOneCall requesting \<and>
   incomingCall glare = Some callFromBob \<and> pendingOutgoingCall glare = Some callFromAlice \<and>
   conversationId callFromBob = 7 \<and> conversationId callFromAlice = 7 \<and>
   callsInConversation 7 glare = 2 \<and> \<not> atMostOneCall glare"
proof -
  have g: "activeCall glare = None" "incomingCall glare = Some callFromBob"
    "pendingOutgoingCall glare = Some callFromAlice"
    using glare_slots by (simp_all add: slots_def)
  have c: "conversationId callFromBob = 7" "conversationId callFromAlice = 7"
    by (simp_all add: callFromBob_def callFromAlice_def)
  have e: "glare = handleCallChange hostOk (rowOf callFromBob)
             (handleCallChange hostOk (rowOf callFromAlice) (signedIn hostOk ''alice'' 7))"
    by (simp add: glare_def requesting_def)
  have r: "atMostOneCall requesting" by (simp add: atMostOneCall_iff requesting_fields)
  have n: "callsInConversation 7 glare = 2" "\<not> atMostOneCall glare"
    by (simp_all add: g c atMostOneCall_iff callsInConversation_def slotCalls_def
        List.map_filter_def)
  show ?thesis using e r g c n by blast
qed

text \<open>
  C1, as the code has it. Each handler of a signal envelope keeps ``at most one slot
  non-null'', and so does the handler of a notification with status ended, cancelled
  or rejected, which empties all three slots when the call is in one of them and
  changes none otherwise. The handler of a pending notification fills
  \<open>pendingOutgoingCall\<close> (the local user's own request) or \<open>incomingCall\<close> (anyone
  else's) and leaves the other two slots as they are. The handler of an accepted
  notification fills \<open>activeCall\<close> and clears \<open>pendingOutgoingCall\<close> only (for the
  requester, when the row names an accepting user) or \<open>incomingCall\<close> only (for the
  accepting user), and changes no slot for anyone else.
\<close>

theorem call_slots_after_handlers:
  "(atMostOneCall s \<longrightarrow> atMostOneCall (handleSignal env ev signal s)) \<and>
   (atMostOneCall s \<and>
    (row_status raw = Some Ended \<or> row_status raw = Some Cancelled \<or>
     row_status raw = Some Rejected) \<longrightarrow>
      atMostOneCall (handleCallChange env raw s)) \<and>
   (currentUser s = Some me \<and> normalizeCall raw = Some call \<longrightarrow>
      slots (handleCallChange env raw s) =
        (if status call = Pending then
           (if requesterId call = me then (activeCall s, incomingCall s, Some call)
            else (activeCall s, Some call, pendingOutgoingCall s))
         else if status call = Accepted then
           (if requesterId call = me \<and> truthy (acceptedBy call)
            then (Some call, incomingCall s, None)
            else if acceptedBy call = Some me then (Some call, None, pendingOutgoingCall s)
            else slots s)
         else if isRelated (call_id call) s then (None, None, None)
         else slots s)) \<and>
   (atMostOneCall s \<longleftrightarrow>
      (activeCall s = None \<and> incomingCall s = None) \<or>
      (activeCall s = None \<and> pendingOutgoingCall s = None) \<or>
      (incomingCall s = None \<and> pendingOutgoingCall s = None))"
  using handleSignal_atMostOneCall [of s env ev signal]
    terminal_atMostOneCall [of raw s env]
    handleCallChange_slots [of s me raw call env]
    atMostOneCall_iff [of s]
  by blast

theorem call_slots_after_handlers_witness:
  "atMostOneCall requesting \<and>
   atMostOneCall (handleSignal hostOk CallAcceptedEv acceptedSignal requesting) \<and>
   currentUser requesting = Some ''alice'' \<and>
   normalizeCall (rowOf acceptedByBob) = Some acceptedByBob \<and>
   slots (handleCallChange hostOk (rowOf acceptedByBob) requesting) =
     (Some acceptedByBob, None, None) \<and>
   normalizeCall (rowOf callFromBob) = Some callFromBob \<and>
   slots (handleCallChange hostOk (rowOf callFromBob) requesting) =
     (None, Some callFromBob, Some callFromAlice) \<and>
   atMostOneCall ringing \<and> row_status cancelledByBob = Some Cancelled \<and>
   currentUser ringing = Some ''alice'' \<and>
   normalizeCall cancelledByBob = Some (callFromBob\<lparr>status := Cancelled\<rparr>) \<and>
   atMostOneCall (handleCallChange hostOk cancelledByBob ringing) \<and>
   slots (handleCallChange hostOk cancelledByBob ringing) = (None, None, None)"
proof -
  have a: "atMostOneCall requesting" "atMostOneCall ringing"
    by (simp_all add: atMostOneCall_iff requesting_fields ringing_fields)
  have u: "currentUser requesting = Some ''alice''" "currentUser ringing = Some ''alice''"
    by (simp_all add: requesting_fields ringing_fields)
  have n: "normalizeCall (rowOf acceptedByBob) = Some acceptedByBob"
    "normalizeCall (rowOf callFromBob) = Some callFromBob"
    "normalizeCall cancelledByBob = Some (callFromBob\<lparr>status := Cancelled\<rparr>)"
    by (simp_all add: normalizeCall_def rowOf_def acceptedByBob_def callFromAlice_def
        callFromBob_def cancelledByBob_def)
  have r: "row_status cancelledByBob = Some Cancelled"
    by (simp add: cancelledByBob_def rowOf_def)
  have f: "status acceptedByBob = Accepted" "requesterId acceptedByBob = ''alice''"
    "truthy (acceptedBy acceptedByBob)" "status callFromBob = Pending"
    "requesterId callFromBob \<noteq> ''alice''" "call_id callFromBob = 1"
    by (simp_all add: acceptedByBob_def callFromAlice_def callFromBob_def truthy_def)
  have i: "isRelated 1 ringing" by (simp add: isRelated_def ringing_fields callFromBob_def)
  show ?thesis
    using call_slots_after_handlers
            [of requesting hostOk CallAcceptedEv acceptedSignal "rowOf acceptedByBob"
                "''alice''" acceptedByBob]
      call_slots_after_handlers
            [of requesting hostOk CallAcceptedEv acceptedSignal "rowOf callFromBob"
                "''alice''" callFromBob]
      call_slots_after_handlers
            [of ringing hostOk CallAcceptedEv acceptedSignal cancelledByBob
                "''alice''" "callFromBob\<lparr>status := Cancelled\<rparr>"]
      a u n r f i
    by (simp add: requesting_fields ringing_fields)
qed

section \<open>Properties of repeated deliveries\<close>

lemma ensureLocalStream_Inl_again:
  assumes "ensureLocalStream env s = Inl message" and "localStream s' = localStream s"
  shows "ensureLocalStream env s' = Inl message"
  using assms by (auto simp: ensureLocalStream_def split: option.splits)

lemma ensureLocalStream_keeps:
  assumes "ensureLocalStream env s = Inr (stream, s')"
  shows "peerConnectionRef s' = peerConnectionRef s"
  using assms by (auto simp: ensureLocalStream_def split: option.splits)

lemma createPeerConnection_session:
  "createPeerConnection call stream me servers s = (peer, s') \<Longrightarrow> peerConnectionRef s' = Some peer"
  by (auto simp: createPeerConnection_def Let_def)

lemma sendCallSignal_session:
  "sendCallSignal env ev payload s = Some s' \<Longrightarrow> peerConnectionRef s' = peerConnectionRef s"
  by (auto simp: sendCallSignal_def split: if_splits)

lemma small_steps_session:
  "peerConnectionRef (handshakeFailed message s) = peerConnectionRef s"
  "peerConnectionRef (setLocalDescription sdp s) =
     map_option (\<lambda>peer. peer\<lparr>localDescription := Some sdp\<rparr>) (peerConnectionRef s)"
  by (simp_all add: handshakeFailed_def setLocalDescription_def)

text \<open>A caller handshake that gets its media stream leaves a session behind, whatever
  happens after the session is created.\<close>

lemma startCallerHandshake_session:
  assumes t: "truthy (acceptedBy call)" and n: "peerConnectionRef s = None"
    and e: "ensureLocalStream env
              (s\<lparr>handshakeStartedForCallRef := Some (call_id call), callStatus := StConnecting\<rparr>)
            = Inr r"
  shows "peerConnectionRef (startCallerHandshake env call me s) \<noteq> None"
proof -
  obtain stream s2 where r: "r = (stream, s2)" by (cases r)
  obtain servers s3 where s3: "resolveIceServers env s2 = (servers, s3)"
    by (cases "resolveIceServers env s2")
  obtain peer s4 where s4: "createPeerConnection call stream me servers s3 = (peer, s4)"
    by (cases "createPeerConnection call stream me servers s3")
  have p: "peerConnectionRef s4 = Some peer" using createPeerConnection_session [OF s4] .
  show ?thesis
  proof (cases "createOffer env")
    case None
    then show ?thesis using t n e r s3 s4 p
      by (simp add: startCallerHandshake_def Let_def small_steps_session)
  next
    case (Some offer)
    let ?p = "\<lparr>sig_callId = call_id call, sig_from = me, sig_to = acceptedBy call,
               sig_conversationId = conversationId call,
               sig_sdp = Some offer, sig_candidate = None\<rparr>"
    show ?thesis
    proof (cases "sendCallSignal env WebrtcOffer ?p (setLocalDescription offer s4)")
      case None
      then show ?thesis using t n e r s3 s4 p Some
        by (simp add: startCallerHandshake_def Let_def small_steps_session)
    next
      case sent: (Some s6)
      then show ?thesis
        using t n e r s3 s4 p Some sendCallSignal_session [OF sent]
        by (simp add: startCallerHandshake_def Let_def small_steps_session)
    qed
  qed
qed

lemma startCallerHandshake_no_media:
  assumes t: "truthy (acceptedBy call)" and n: "peerConnectionRef s = None"
    and e: "ensureLocalStream env
              (s\<lparr>handshakeStartedForCallRef := Some (call_id call), callStatus := StConnecting\<rparr>)
            = Inl message"
  shows "startCallerHandshake env call me s =
           s\<lparr>handshakeStartedForCallRef := None, callStatus := StError,
             callError := Some message\<rparr>"
  using assms by (simp add: startCallerHandshake_def Let_def handshakeFailed_def)

text \<open>The caller handshake writes neither the signed-in user nor the candidate queue.\<close>

lemma ensureLocalStream_kept:
  "ensureLocalStream env s = Inr (stream, s') \<Longrightarrow>
     currentUser s' = currentUser s \<and> pendingRemoteCandidatesRef s' = pendingRemoteCandidatesRef s"
  by (auto simp: ensureLocalStream_def split: option.splits)

lemma resolveIceServers_kept:
  "resolveIceServers env s = (servers, s') \<Longrightarrow>
     currentUser s' = currentUser s \<and> pendingRemoteCandidatesRef s' = pendingRemoteCandidatesRef s"
  by (auto simp: resolveIceServers_def resolveFallback_def Let_def
      split: option.splits FetchOutcome.splits if_splits)

lemma createPeerConnection_kept:
  "createPeerConnection call stream me servers s = (peer, s') \<Longrightarrow>
     currentUser s' = currentUser s \<and> pendingRemoteCandidatesRef s' = pendingRemoteCandidatesRef s"
  by (auto simp: createPeerConnection_def Let_def)

lemma sendCallSignal_kept:
  "sendCallSignal env ev payload s = Some s' \<Longrightarrow>
     currentUser s' = currentUser s \<and> pendingRemoteCandidatesRef s' = pendingRemoteCandidatesRef s"
  by (auto simp: sendCallSignal_def split: if_splits)

lemma small_steps_kept:
  "currentUser (handshakeFailed message s) = currentUser s"
  "pendingRemoteCandidatesRef (handshakeFailed message s) = pendingRemoteCandidatesRef s"
  "currentUser (setLocalDescription sdp s) = currentUser s"
  "pendingRemoteCandidatesRef (setLocalDescription sdp s) = pendingRemoteCandidatesRef s"
  by (simp_all add: handshakeFailed_def setLocalDescription_def)

lemma startCallerHandshake_kept:
  "currentUser (startCallerHandshake env call me s) = currentUser s \<and>
   pendingRemoteCandidatesRef (startCallerHandshake env call me s) = pendingRemoteCandidatesRef s"
proof -
  let ?s1 = "s\<lparr>handshakeStartedForCallRef := Some (call_id call), callStatus := StConnecting\<rparr>"
  show ?thesis
  proof (cases "\<not> truthy (acceptedBy call) \<or>
      (handshakeStartedForCallRef s = Some (call_id call) \<and> peerConnectionRef s \<noteq> None)")
    case True
    then show ?thesis by (auto simp: startCallerHandshake_def)
  next
    case False
    show ?thesis
    proof (cases "ensureLocalStream env ?s1")
      case (Inl message)
      then show ?thesis using False
        by (simp add: startCallerHandshake_def Let_def small_steps_kept)
    next
      case (Inr r)
      obtain stream s2 where r: "r = (stream, s2)" by (cases r)
      obtain servers s3 where s3: "resolveIceServers env s2 = (servers, s3)"
        by (cases "resolveIceServers env s2")
      obtain peer s4 where s4: "createPeerConnection call stream me servers s3 = (peer, s4)"
        by (cases "createPeerConnection call stream me servers s3")
      have e: "currentUser s4 = currentUser s \<and>
               pendingRemoteCandidatesRef s4 = pendingRemoteCandidatesRef s"
        using ensureLocalStream_kept [of env ?s1 stream s2] resolveIceServers_kept [OF s3]
          createPeerConnection_kept [OF s4] Inr r by simp
      show ?thesis
      proof (cases "createOffer env")
        case None
        then show ?thesis using False Inr r s3 s4 e
          by (simp add: startCallerHandshake_def Let_def small_steps_kept)
      next
        case (Some offer)
        let ?p = "\<lparr>sig_callId = call_id call, sig_from = me, sig_to = acceptedBy call,
                   sig_conversationId = conversationId call,
                   sig_sdp = Some offer, sig_candidate = None\<rparr>"
        show ?thesis
        proof (cases "sendCallSignal env WebrtcOffer ?p (setLocalDescription offer s4)")
          case None
          then show ?thesis using False Inr r s3 s4 e Some
            by (simp add: startCallerHandshake_def Let_def small_steps_kept)
        next
          case sent: (Some s6)
          then show ?thesis
            using False Inr r s3 s4 e Some sendCallSignal_kept [OF sent]
            by (simp add: startCallerHandshake_def Let_def small_steps_kept)
        qed
      qed
    qed
  qed
qed

text \<open>The terminal branch empties the three slots, so that no call is related to the
  state it leaves.\<close>

lemma cleared_not_related:
  "\<not> isRelated i ((clearCallSlots (resetCallMedia s))\<lparr>callStatus := st\<rparr>)"
  "\<not> isRelated i ((clearCallSlots (resetCallMedia s))\<lparr>callError := e, callStatus := st\<rparr>)"
  by (simp_all add: isRelated_def clearCallSlots_def resetCallMedia_def)

text \<open>A notification whose row is not an accepted one: the second handling changes
  nothing at all.\<close>

lemma handleCallChange_twice_not_accepted:
  assumes "row_status raw \<noteq> Some Accepted"
  shows "handleCallChange env raw (handleCallChange env raw s) = handleCallChange env raw s"
proof (cases "currentUser s")
  case None
  then show ?thesis by (simp add: handleCallChange_def)
next
  case me: (Some me)
  show ?thesis
  proof (cases "normalizeCall raw")
    case None
    then show ?thesis using me by (simp add: handleCallChange_def)
  next
    case (Some call)
    have na: "status call \<noteq> Accepted"
      using Some assms
      by (auto simp: normalizeCall_def split: option.splits if_splits)
    show ?thesis
    proof (cases "status call = Pending")
      case True
      then show ?thesis using me Some
        by (cases "requesterId call = me") (simp_all add: handleCallChange_def)
    next
      case False
      show ?thesis
      proof (cases "isRelated (call_id call) s")
        case False
        then show ?thesis using me Some na \<open>status call \<noteq> Pending\<close>
          by (simp add: handleCallChange_def)
      next
        case True
        let ?t = "handleCallChange env raw s"
        have t: "?t = (if status call = Rejected \<and> requesterId call = me
                       then (clearCallSlots (resetCallMedia s))
                              \<lparr>callError := Some ''Call was declined.'', callStatus := StIdle\<rparr>
                       else (clearCallSlots (resetCallMedia s))\<lparr>callStatus := StIdle\<rparr>)"
          using me Some na \<open>status call \<noteq> Pending\<close> True
          by (simp add: handleCallChange_def Let_def)
        have u: "currentUser ?t = Some me"
          using me by (simp add: t clearCallSlots_def resetCallMedia_def)
        have r: "\<not> isRelated (call_id call) ?t"
          by (simp add: t cleared_not_related)
        have "handleCallChange env raw ?t = ?t"
          using u Some na \<open>status call \<noteq> Pending\<close> r
          by (simp add: handleCallChange_def [of env raw ?t])
        then show ?thesis .
      qed
    qed
  qed
qed

text \<open>An accepted row. The requester's second handling finds either the session of the
  first or, when the first got no media stream, the same refusal again.\<close>

lemma handleCallChange_twice_accepted:
  assumes me: "currentUser s = Some me" and call: "normalizeCall raw = Some call"
    and acc: "status call = Accepted"
  shows "observable (handleCallChange env raw (handleCallChange env raw s)) =
         observable (handleCallChange env raw s)"
proof (cases "requesterId call = me \<and> truthy (acceptedBy call)")
  case False
  then show ?thesis using me call acc
    by (cases "acceptedBy call = Some me") (auto simp: handleCallChange_def Let_def)
next
  case True
  let ?s2 = "s\<lparr>activeConversationId := Some (conversationId call), pendingOutgoingCall := None,
              callError := None, activeCall := Some call\<rparr>"
  show ?thesis
  proof (cases "peerConnectionRef s")
    case (Some p)
    have f: "handleCallChange env raw s = ?s2"
      using me call acc True Some by (simp add: handleCallChange_def Let_def)
    have "handleCallChange env raw ?s2 = ?s2"
      using me call acc True Some by (simp add: handleCallChange_def Let_def)
    then show ?thesis by (simp add: f)
  next
    case None
    let ?R = "startCallerHandshake env call me ?s2"
    have f: "handleCallChange env raw s = ?R"
      using me call acc True None by (simp add: handleCallChange_def Let_def)
    have t: "truthy (acceptedBy call)" using True by simp
    have n: "peerConnectionRef ?s2 = None" using None by simp
    show ?thesis
    proof (cases "ensureLocalStream env
                    (?s2\<lparr>handshakeStartedForCallRef := Some (call_id call),
                         callStatus := StConnecting\<rparr>)")
      case (Inl message)
      let ?F = "?s2\<lparr>handshakeStartedForCallRef := None, callStatus := StError,
                    callError := Some message\<rparr>"
      have R: "?R = ?F" using startCallerHandshake_no_media [OF t n Inl] .
      let ?F2 = "?F\<lparr>activeConversationId := Some (conversationId call),
                    pendingOutgoingCall := None, callError := None, activeCall := Some call\<rparr>"
      have n2: "peerConnectionRef ?F2 = None" using None by simp
      have again: "ensureLocalStream env
                     (?F2\<lparr>handshakeStartedForCallRef := Some (call_id call),
                          callStatus := StConnecting\<rparr>) = Inl message"
        by (rule ensureLocalStream_Inl_again [OF Inl]) simp
      have g: "handleCallChange env raw ?F = startCallerHandshake env call me ?F2"
        using me call acc True None by (simp add: handleCallChange_def Let_def)
      have "startCallerHandshake env call me ?F2 =
              ?F2\<lparr>handshakeStartedForCallRef := None, callStatus := StError,
                  callError := Some message\<rparr>"
        using startCallerHandshake_no_media [OF t n2 again] .
      then show ?thesis
        unfolding f R g by (simp add: observable_def slots_def)
    next
      case (Inr r)
      obtain peer where p: "peerConnectionRef ?R = Some peer"
        using startCallerHandshake_session [OF t n Inr, where me = me]
        by (cases "peerConnectionRef ?R") simp_all
      have u: "currentUser ?R = Some me"
        using startCallerHandshake_kept [of env call me ?s2] me by simp
      have sl: "slots ?R = slots ?s2" by (rule startCallerHandshake_slots)
      have g: "handleCallChange env raw ?R =
                 ?R\<lparr>activeConversationId := Some (conversationId call),
                    pendingOutgoingCall := None, callError := None, activeCall := Some call\<rparr>"
        using u call acc True p by (simp add: handleCallChange_def [of env raw ?R] Let_def)
      show ?thesis
        unfolding f g using sl by (simp add: observable_def slots_def)
    qed
  qed
qed

lemma handleCallChange_twice:
  "observable (handleCallChange env raw (handleCallChange env raw s)) =
   observable (handleCallChange env raw s)"
proof (cases "currentUser s")
  case None
  then show ?thesis by (simp add: handleCallChange_def)
next
  case me: (Some me)
  show ?thesis
  proof (cases "normalizeCall raw")
    case None
    then show ?thesis using me by (simp add: handleCallChange_def)
  next
    case (Some call)
    show ?thesis
    proof (cases "status call = Accepted")
      case True
      then show ?thesis using handleCallChange_twice_accepted [OF me Some] by simp
    next
      case False
      then have "row_status raw \<noteq> Some Accepted"
        using Some by (auto simp: normalizeCall_def split: option.splits if_splits)
      then show ?thesis using handleCallChange_twice_not_accepted [of raw env s] by simp
    qed
  qed
qed

text \<open>The envelopes \<open>call-ended\<close>, \<open>call-accepted\<close> and \<open>webrtc-answer\<close>: the second handling
  changes nothing at all.\<close>

lemma callEnded_twice:
  "handleSignal env CallEndedEv signal (handleSignal env CallEndedEv signal s) =
   handleSignal env CallEndedEv signal s"
proof (cases "currentUser s")
  case None
  then show ?thesis by (simp add: handleSignal_def)
next
  case (Some me)
  show ?thesis
  proof (cases "isRelated (sig_callId signal) s")
    case False
    then show ?thesis using Some by (simp add: handleSignal_def onCallEnded_def)
  next
    case True
    let ?t = "(clearCallSlots (resetCallMedia s))\<lparr>callStatus := StIdle\<rparr>"
    have f: "handleSignal env CallEndedEv signal s = ?t"
      using Some True by (simp add: handleSignal_def onCallEnded_def)
    have "onCallEnded signal ?t = ?t"
      using cleared_not_related(1) [where i = "sig_callId signal" and s = s and st = StIdle]
      by (simp add: onCallEnded_def [of signal ?t])
    then have "handleSignal env CallEndedEv signal ?t = ?t"
      by (cases "currentUser ?t") (simp_all add: handleSignal_def)
    then show ?thesis by (simp only: f)
  qed
qed

lemma callAccepted_nothing_pending:
  assumes "pendingOutgoingCall t = None"
  shows "handleSignal env CallAcceptedEv signal t = t"
  using assms
  by (cases "currentUser t") (simp_all add: handleSignal_def onCallAccepted_def)

lemma callAccepted_twice:
  "handleSignal env CallAcceptedEv signal (handleSignal env CallAcceptedEv signal s) =
   handleSignal env CallAcceptedEv signal s"
proof (cases "pendingOutgoingCall (handleSignal env CallAcceptedEv signal s)")
  case None
  then show ?thesis by (rule callAccepted_nothing_pending)
next
  case still: (Some c)
  have "handleSignal env CallAcceptedEv signal s = s"
  proof (cases "currentUser s")
    case None
    then show ?thesis by (simp add: handleSignal_def)
  next
    case me: (Some me)
    show ?thesis
    proof (cases "pendingOutgoingCall s")
      case None
      then show ?thesis by (rule callAccepted_nothing_pending)
    next
      case (Some pending)
      show ?thesis
      proof (cases "forSomeoneElse me signal \<or> call_id pending \<noteq> sig_callId signal")
        case True
        then show ?thesis using me Some
          by (auto simp: handleSignal_def onCallAccepted_def)
      next
        case False
        let ?a = "pending\<lparr>acceptedBy := Some (sig_from signal), status := Accepted\<rparr>"
        let ?s1 = "s\<lparr>pendingOutgoingCall := None, activeCall := Some ?a,
                     callStatus := StConnecting,
                     activeConversationId := Some (conversationId ?a)\<rparr>"
        have f: "handleSignal env CallAcceptedEv signal s = startCallerHandshake env ?a me ?s1"
          using me Some False by (simp add: handleSignal_def onCallAccepted_def Let_def)
        have "slots (startCallerHandshake env ?a me ?s1) = slots ?s1"
          by (rule startCallerHandshake_slots)
        then have "pendingOutgoingCall (startCallerHandshake env ?a me ?s1) = None"
          by (simp add: slots_def)
        then show ?thesis using still f by simp
      qed
    qed
  qed
  then show ?thesis by simp
qed

lemma flush_nothing_queued:
  "pendingRemoteCandidatesRef t = [] \<Longrightarrow> flushPendingRemoteCandidates env t = t"
  by (cases "peerConnectionRef t") (simp_all add: flushPendingRemoteCandidates_def)

lemma webrtcAnswer_already_set:
  assumes p: "peerConnectionRef t = Some p" and rd: "remoteDescription p = Some sdp"
    and q: "pendingRemoteCandidatesRef t = []" and sdp: "sig_sdp signal = Some sdp"
  shows "handleSignal env WebrtcAnswer signal t = t"
proof -
  have a: "p\<lparr>remoteDescription := remoteDescription p\<rparr> = p" by simp
  have b: "t\<lparr>peerConnectionRef := peerConnectionRef t\<rparr> = t" by simp
  have c: "t\<lparr>peerConnectionRef := Some (p\<lparr>remoteDescription := Some sdp\<rparr>)\<rparr> = t"
    using a b unfolding rd p by simp
  have "flushPendingRemoteCandidates env t = t" using q by (rule flush_nothing_queued)
  then show ?thesis
    using p sdp c
    by (cases "currentUser t") (simp_all add: handleSignal_def onWebrtcAnswer_def)
qed

lemma webrtcAnswer_twice:
  "handleSignal env WebrtcAnswer signal (handleSignal env WebrtcAnswer signal s) =
   handleSignal env WebrtcAnswer signal s"
proof (cases "currentUser s")
  case None
  then show ?thesis by (simp add: handleSignal_def)
next
  case me: (Some me)
  show ?thesis
  proof (cases "forSomeoneElse me signal \<or> sig_sdp signal = None \<or> peerConnectionRef s = None
                \<or> \<not> setRemoteDescriptionOk env")
    case True
    then have "handleSignal env WebrtcAnswer signal s = s"
      using me by (auto simp: handleSignal_def onWebrtcAnswer_def split: option.splits)
    then show ?thesis by simp
  next
    case False
    then obtain sdp peer where sdp: "sig_sdp signal = Some sdp"
      and peer: "peerConnectionRef s = Some peer" by auto
    let ?p = "peer\<lparr>remoteDescription := Some sdp\<rparr>"
    let ?s1 = "s\<lparr>peerConnectionRef := Some ?p\<rparr>"
    let ?t = "flushPendingRemoteCandidates env ?s1"
    have f: "handleSignal env WebrtcAnswer signal s = ?t"
      using me False sdp peer by (simp add: handleSignal_def onWebrtcAnswer_def)
    have p1: "peerConnectionRef ?s1 = Some ?p" by simp
    have r1: "remoteDescription ?p \<noteq> None" by simp
    note fl = flush_fields [OF p1 r1, of env]
    have "handleSignal env WebrtcAnswer signal ?t = ?t"
      by (rule webrtcAnswer_already_set [OF fl(2) _ fl(1) sdp]) simp
    then show ?thesis by (simp only: f)
  qed
qed

text \<open>A candidate that arrives while the session has no remote description is queued
  once for each delivery.\<close>

lemma webrtcIce_twice_queued:
  assumes "currentUser s = Some me" and "peerConnectionRef s = Some peer"
    and "remoteDescription peer = None"
    and "\<not> forSomeoneElse me signal" and "sig_candidate signal = Some c"
  shows "pendingRemoteCandidatesRef
           (handleSignal env WebrtcIce signal (handleSignal env WebrtcIce signal s)) =
         pendingRemoteCandidatesRef s @ [c, c]"
proof -
  let ?t = "s\<lparr>pendingRemoteCandidatesRef := pendingRemoteCandidatesRef s @ [c]\<rparr>"
  have f: "handleSignal env WebrtcIce signal s = ?t"
    using assms by (rule onWebrtcIce_queues)
  have "handleSignal env WebrtcIce signal ?t =
          ?t\<lparr>pendingRemoteCandidatesRef := pendingRemoteCandidatesRef ?t @ [c]\<rparr>"
    using assms by (intro onWebrtcIce_queues [where me = me and peer = peer]) simp_all
  then show ?thesis by (simp add: f)
qed

text \<open>
  C2. The claim: for every persisted-state notification and every signal envelope, a
  second application of the identical notification or envelope, immediately after the
  first, leaves the call slots, the call status, the session and the candidate queue as
  they were after the first. The \<open>webrtc-ice\<close> handler compares nothing: while the session
  has no remote description it appends the candidate to the queue at each delivery, so
  that the queue of \<open>alice\<close>, who is calling bob, holds bob's candidate twice after the
  second delivery of one envelope.
\<close>

theorem repeated_candidate_queued_twice:
  "currentUser calling = Some ''alice'' \<and> peerConnectionRef calling = Some callerPeer \<and>
   remoteDescription callerPeer = None \<and> pendingRemoteCandidatesRef calling = [] \<and>
   pendingRemoteCandidatesRef (handleSignal hostOk WebrtcIce (iceFromBob ''c1'') calling) =
     [IceCandidate ''c1''] \<and>
   pendingRemoteCandidatesRef
     (handleSignal hostOk WebrtcIce (iceFromBob ''c1'')
        (handleSignal hostOk WebrtcIce (iceFromBob ''c1'') calling)) =
     [IceCandidate ''c1'', IceCandidate ''c1''] \<and>
   observable (handleSignal hostOk WebrtcIce (iceFromBob ''c1'')
                 (handleSignal hostOk WebrtcIce (iceFromBob ''c1'') calling)) \<noteq>
   observable (handleSignal hostOk WebrtcIce (iceFromBob ''c1'') calling)"
proof -
  have c: "currentUser calling = Some ''alice''" "peerConnectionRef calling = Some callerPeer"
    "pendingRemoteCandidatesRef calling = []"
    by (simp_all add: calling_fields)
  have r: "remoteDescription callerPeer = None" by (simp add: callerPeer_def)
  have a: "\<not> forSomeoneElse ''alice'' (iceFromBob ''c1'')"
    "sig_candidate (iceFromBob ''c1'') = Some (IceCandidate ''c1'')"
    by (simp_all add: forSomeoneElse_def iceFromBob_def)
  let ?once = "calling\<lparr>pendingRemoteCandidatesRef := [IceCandidate ''c1'']\<rparr>"
  have once: "handleSignal hostOk WebrtcIce (iceFromBob ''c1'') calling = ?once"
    using onWebrtcIce_queues [OF c(1) c(2) r a, of hostOk] c(3) by simp
  have "handleSignal hostOk WebrtcIce (iceFromBob ''c1'') ?once =
          ?once\<lparr>pendingRemoteCandidatesRef := pendingRemoteCandidatesRef ?once @ [IceCandidate ''c1'']\<rparr>"
    using c r a by (intro onWebrtcIce_queues [where me = "''alice''" and peer = callerPeer]) simp_all
  then have twice: "handleSignal hostOk WebrtcIce (iceFromBob ''c1'') ?once =
          calling\<lparr>pendingRemoteCandidatesRef := [IceCandidate ''c1'', IceCandidate ''c1'']\<rparr>"
    by simp
  show ?thesis
    unfolding once twice using c r by (simp add: observable_def)
qed

text \<open>
  C2, as the code has it, for a second delivery that is handled after the handling of
  the first has run to its end, the host answering the second as it answered the first.
  Every persisted-state notification leaves the slots, the call status, the session and
  the candidate queue as the first handling left them; unless its row is an accepted
  one, it leaves the whole state so. (The requester's second handling of an accepted
  row clears \<open>callError\<close> again, which a failed handshake of the first had set, and
  starts the handshake again when the first got no media stream.) The envelopes
  \<open>call-accepted\<close>, \<open>webrtc-answer\<close> and \<open>call-ended\<close> leave the whole state as the first
  handling left it. A \<open>webrtc-ice\<close> envelope that finds a session without remote
  description is queued once for each delivery. Nothing is stated of a second
  \<open>webrtc-offer\<close>, nor of a second delivery that is handled while the caller
  handshake of the first still waits for the host.
\<close>

theorem repeated_delivery:
  "observable (handleCallChange env raw (handleCallChange env raw s)) =
     observable (handleCallChange env raw s) \<and>
   (row_status raw \<noteq> Some Accepted \<longrightarrow>
      handleCallChange env raw (handleCallChange env raw s) = handleCallChange env raw s) \<and>
   (ev \<in> {CallAcceptedEv, WebrtcAnswer, CallEndedEv} \<longrightarrow>
      handleSignal env ev signal (handleSignal env ev signal s) = handleSignal env ev signal s) \<and>
   (currentUser s = Some me \<and> peerConnectionRef s = Some peer \<and>
    remoteDescription peer = None \<and> \<not> forSomeoneElse me signal \<and>
    sig_candidate signal = Some c \<longrightarrow>
      pendingRemoteCandidatesRef
        (handleSignal env WebrtcIce signal (handleSignal env WebrtcIce signal s)) =
      pendingRemoteCandidatesRef s @ [c, c])"
  using handleCallChange_twice [of env raw s] handleCallChange_twice_not_accepted [of raw env s]
    callAccepted_twice [of env signal s] webrtcAnswer_twice [of env signal s]
    callEnded_twice [of env signal s] webrtcIce_twice_queued [of s me peer signal c env]
  by blast

theorem repeated_delivery_witness:
  "observable (handleCallChange hostOk (rowOf acceptedByBob) calling) = observable calling \<and>
   row_status cancelledByBob \<noteq> Some Accepted \<and>
   handleCallChange hostOk cancelledByBob (handleCallChange hostOk cancelledByBob glare) =
     handleCallChange hostOk cancelledByBob glare \<and>
   handleSignal hostOk WebrtcAnswer answerFromBob
     (handleSignal hostOk WebrtcAnswer answerFromBob calling) =
     handleSignal hostOk WebrtcAnswer answerFromBob calling \<and>
   currentUser callingQueued = Some ''alice'' \<and>
   peerConnectionRef callingQueued = Some callerPeer \<and>
   remoteDescription callerPeer = None \<and>
   \<not> forSomeoneElse ''alice'' (iceFromBob ''c2'') \<and>
   sig_candidate (iceFromBob ''c2'') = Some (IceCandidate ''c2'') \<and>
   pendingRemoteCandidatesRef
     (handleSignal hostOk WebrtcIce (iceFromBob ''c2'')
        (handleSignal hostOk WebrtcIce (iceFromBob ''c2'') callingQueued)) =
     [IceCandidate ''c1'', IceCandidate ''c2'', IceCandidate ''c2'']"
proof -
  have n: "row_status cancelledByBob \<noteq> Some Accepted"
    by (simp add: cancelledByBob_def rowOf_def callFromBob_def)
  have c: "currentUser callingQueued = Some ''alice''"
    "peerConnectionRef callingQueued = Some callerPeer"
    "pendingRemoteCandidatesRef callingQueued = [IceCandidate ''c1'']"
    by (simp_all add: callingQueued_fields)
  have r: "remoteDescription callerPeer = None" by (simp add: callerPeer_def)
  have a: "\<not> forSomeoneElse ''alice'' (iceFromBob ''c2'')"
    "sig_candidate (iceFromBob ''c2'') = Some (IceCandidate ''c2'')"
    by (simp_all add: forSomeoneElse_def iceFromBob_def)
  have e: "WebrtcAnswer \<in> {CallAcceptedEv, WebrtcAnswer, CallEndedEv}" by simp
  have 1: "observable (handleCallChange hostOk (rowOf acceptedByBob) calling) = observable calling"
    using repeated_delivery [of hostOk "rowOf acceptedByBob" requesting]
    by (simp only: calling_def [symmetric])
  have 2: "handleCallChange hostOk cancelledByBob (handleCallChange hostOk cancelledByBob glare) =
           handleCallChange hostOk cancelledByBob glare"
    using repeated_delivery [of hostOk cancelledByBob glare] n by blast
  have 3: "handleSignal hostOk WebrtcAnswer answerFromBob
             (handleSignal hostOk WebrtcAnswer answerFromBob calling) =
           handleSignal hostOk WebrtcAnswer answerFromBob calling"
    using repeated_delivery [where env = hostOk and ev = WebrtcAnswer and signal = answerFromBob
        and s = calling] e by blast
  have 4: "pendingRemoteCandidatesRef
             (handleSignal hostOk WebrtcIce (iceFromBob ''c2'')
                (handleSignal hostOk WebrtcIce (iceFromBob ''c2'') callingQueued)) =
           pendingRemoteCandidatesRef callingQueued @ [IceCandidate ''c2'', IceCandidate ''c2'']"
    using repeated_delivery [where env = hostOk and signal = "iceFromBob ''c2''"
        and s = callingQueued and me = "''alice''" and peer = callerPeer
        and c = "IceCandidate ''c2''"] c r a by blast
  show ?thesis using n c r a 1 2 3 4 by simp
qed

end
